theory Spec2Isabelle
  imports Complex_Main
begin

section \<open>Record search of rsa\_archer: a shallow embedding of record\_search.py\<close>

text \<open>
  The module looks up record ids by application, field display name and value: a REST
  search first, a Content API query as fallback. Python values that come out of JSON or
  out of the host client are modelled by one datatype; dictionaries are association lists
  in insertion order with distinct keys. A string is a list of characters, a character
  being its code point: the model covers text whose code points are below 256.
  Exceptions are values of a sum type, \<open>Inl\<close> carrying the exception.
\<close>

subsection \<open>Python values\<close>

datatype pyfloat = Finite rat | PosInf | NegInf | NaN

datatype json =
    JNull
  | JBool bool
  | JInt int
  | JFloat pyfloat
  | JStr string
  | JList "json list"
  | JDict "(string \<times> json) list"

text \<open>Keys of \<open>application_fields_json\<close>: display names (str) and field ids (int).\<close>

datatype pykey = KStr string | KInt int

text \<open>
  \<open>AmbiguousMatch.details\<close>: a list of ids for a single lookup, a dict from value
  to list of ids for a bulk lookup, or None.
\<close>

datatype details = DNone | DList "int list" | DDict "(string \<times> int list) list"

datatype exn =
    FieldNotFound            \<comment> \<open>the ValueError of \<open>_resolve_field_id_by_display_name\<close>\<close>
  | InvalidLevelId           \<comment> \<open>the RuntimeError of \<open>get_record_id_by_field\<close>\<close>
  | AmbiguousMatch details
  | TypeError                \<comment> \<open>unhashable key given to \<open>dict.get\<close>\<close>
  | OtherError string        \<comment> \<open>anything a collaborator raises\<close>

subsection \<open>Built-ins of Python used by the module\<close>

text \<open>
  \<open>str.lower()\<close>: below 256 the cased capitals are A to Z and the letters from 192 to
  222 except the multiplication sign 215; each has its small letter 32 places further.
\<close>

definition lower_char :: "char \<Rightarrow> char" where
  "lower_char c =
     (let n = (of_char c :: nat) in
        if (65 \<le> n \<and> n \<le> 90) \<or> (192 \<le> n \<and> n \<le> 222 \<and> n \<noteq> 215) then char_of (n + 32)
        else c)"

definition lower :: "string \<Rightarrow> string" where
  "lower s = map lower_char s"

definition endswith :: "string \<Rightarrow> string \<Rightarrow> bool" where
  "endswith s suf = (length suf \<le> length s \<and> drop (length s - length suf) s = suf)"

definition startswith :: "string \<Rightarrow> string \<Rightarrow> bool" where
  "startswith s pre = (take (length pre) s = pre)"

text \<open>\<open>sub in s\<close> for two strings.\<close>

fun str_contains :: "string \<Rightarrow> string \<Rightarrow> bool" where
  "str_contains sub [] = (sub = [])"
| "str_contains sub (c # cs) = (startswith (c # cs) sub \<or> str_contains sub cs)"

text \<open>Truth value of an object, as \<open>if x\<close> and \<open>not x\<close> test it.\<close>

fun truthy :: "json \<Rightarrow> bool" where
  "truthy JNull = False"
| "truthy (JBool b) = b"
| "truthy (JInt n) = (n \<noteq> 0)"
| "truthy (JFloat (Finite r)) = (r \<noteq> 0)"
| "truthy (JFloat _) = True"
| "truthy (JStr s) = (s \<noteq> [])"
| "truthy (JList xs) = (xs \<noteq> [])"
| "truthy (JDict d) = (d \<noteq> [])"

text \<open>
  \<open>int(s)\<close> for a string: surrounding whitespace is stripped, one sign is allowed,
  then decimal digits, single underscores only between digits, and no more than 4300
  digits (CPython's default limit). None is ValueError. The whitespace \<open>int\<close> strips is
  tab to carriage return (9 to 13) and the space, and of the characters above 127 the
  next-line character 133 and the no-break space 160, which it first turns into spaces;
  the separators 28 to 31 are not stripped.
\<close>

definition is_space_char :: "char \<Rightarrow> bool" where
  "is_space_char c =
     (let n = (of_char c :: nat) in (9 \<le> n \<and> n \<le> 13) \<or> n = 32 \<or> n = 133 \<or> n = 160)"

definition is_digit_char :: "char \<Rightarrow> bool" where
  "is_digit_char c = (let n = (of_char c :: nat) in 48 \<le> n \<and> n \<le> 57)"

definition strip :: "string \<Rightarrow> string" where
  "strip s = rev (dropWhile is_space_char (rev (dropWhile is_space_char s)))"

fun parse_digits :: "string \<Rightarrow> bool \<Rightarrow> int \<Rightarrow> int option" where
  "parse_digits [] prev acc = (if prev then Some acc else None)"
| "parse_digits (c # cs) prev acc =
     (if is_digit_char c then parse_digits cs True (acc * 10 + int (of_char c - 48))
      else if c = CHR ''_'' \<and> prev then parse_digits cs False acc
      else None)"

definition max_str_digits :: nat where
  "max_str_digits = 4300"

definition int_of_str :: "string \<Rightarrow> int option" where
  "int_of_str s =
     (if max_str_digits < length (filter is_digit_char (strip s)) then None
      else
        (case strip s of
           [] \<Rightarrow> None
         | c # cs \<Rightarrow>
             if c = CHR ''-'' then map_option uminus (parse_digits cs False 0)
             else if c = CHR ''+'' then parse_digits cs False 0
             else parse_digits (c # cs) False 0))"

text \<open>
  \<open>int(x)\<close>: None stands for the TypeError, ValueError or OverflowError that Python
  raises. A float is truncated towards zero.
\<close>

fun py_int :: "json \<Rightarrow> int option" where
  "py_int JNull = None"
| "py_int (JBool b) = Some (if b then 1 else 0)"
| "py_int (JInt n) = Some n"
| "py_int (JFloat (Finite r)) = Some (if 0 \<le> r then \<lfloor>r\<rfloor> else \<lceil>r\<rceil>)"
| "py_int (JFloat _) = None"
| "py_int (JStr s) = int_of_str s"
| "py_int (JList xs) = None"
| "py_int (JDict d) = None"

text \<open>
  \<open>str(x)\<close>, also what an f-string inserts. The text of a finite float, a list or a
  dict is left to the parameter \<open>repr\<close>.
\<close>

fun str_of_nat :: "nat \<Rightarrow> string" where
  "str_of_nat n =
     (if n < 10 then [char_of (48 + n)]
      else str_of_nat (n div 10) @ [char_of (48 + n mod 10)])"

definition str_of_int :: "int \<Rightarrow> string" where
  "str_of_int i = (if i < 0 then CHR ''-'' # str_of_nat (nat (- i)) else str_of_nat (nat i))"

fun py_str :: "(json \<Rightarrow> string) \<Rightarrow> json \<Rightarrow> string" where
  "py_str repr JNull = ''None''"
| "py_str repr (JBool b) = (if b then ''True'' else ''False'')"
| "py_str repr (JInt n) = str_of_int n"
| "py_str repr (JFloat PosInf) = ''inf''"
| "py_str repr (JFloat NegInf) = ''-inf''"
| "py_str repr (JFloat NaN) = ''nan''"
| "py_str repr (JStr s) = s"
| "py_str repr v = repr v"

text \<open>
  \<open>x.get(key, default)\<close>: None is the AttributeError of an object that is not a dict.
\<close>

definition dict_get :: "json \<Rightarrow> string \<Rightarrow> json \<Rightarrow> json option" where
  "dict_get x key dflt =
     (case x of
        JDict d \<Rightarrow> Some (case map_of d key of Some v \<Rightarrow> v | None \<Rightarrow> dflt)
      | _ \<Rightarrow> None)"

text \<open>
  \<open>urllib.parse.quote_plus\<close>: letters, digits and \<open>_.-~\<close> are kept, a space becomes
  a plus sign, every other character is the percent escape of its UTF-8 bytes: one byte
  below 128, two bytes from 128 to 255.
\<close>

definition hex_digit :: "nat \<Rightarrow> char" where
  "hex_digit n = ''0123456789ABCDEF'' ! n"

definition is_unreserved :: "char \<Rightarrow> bool" where
  "is_unreserved c =
     (let n = (of_char c :: nat) in
        (48 \<le> n \<and> n \<le> 57) \<or> (65 \<le> n \<and> n \<le> 90) \<or> (97 \<le> n \<and> n \<le> 122)
        \<or> c = CHR ''_'' \<or> c = CHR ''.'' \<or> c = CHR ''-'' \<or> c = CHR ''~'')"

definition percent_byte :: "nat \<Rightarrow> string" where
  "percent_byte b = [CHR ''%'', hex_digit (b div 16), hex_digit (b mod 16)]"

definition quote_char :: "char \<Rightarrow> string" where
  "quote_char c =
     (let n = (of_char c :: nat) in
        if is_unreserved c then [c]
        else if c = CHR '' '' then ''+''
        else if n < 128 then percent_byte n
        else percent_byte (192 + n div 64) @ percent_byte (128 + n mod 64))"

definition quote_plus :: "string \<Rightarrow> string" where
  "quote_plus s = concat (map quote_char s)"

subsection \<open>The host client and the network\<close>

text \<open>
  What the module reads of the ArcherInstance. The session header is sent with every
  request and never inspected, so it is left out.
\<close>

record archer =
  application_fields_json :: "(pykey \<times> json) list"
  application_level_id :: json
  api_url_base :: string
  content_api_url_base :: string

text \<open>A request: URL, JSON body (POST only) and timeout in seconds.\<close>

datatype call = Post string json nat | Get string nat

text \<open>
  What \<open>requests\<close> gives back: an exception, or a response with its status code and
  its decoded body, None when \<open>resp.json()\<close> raises.
\<close>

datatype http_result = Raises | Response int "json option"

text \<open>
  The collaborators are parameters: the two methods of the host client, the server (which
  answers a request knowing the requests made before it, most recent first), and the text
  Python prints for floats, lists and dicts.
\<close>

record world =
  from_application :: "string \<Rightarrow> archer \<Rightarrow> exn + archer"
  get_value_id_by_field_name_and_value :: "archer \<Rightarrow> string \<Rightarrow> string \<Rightarrow> exn + json list"
  respond :: "call list \<Rightarrow> call \<Rightarrow> http_result"
  repr :: "json \<Rightarrow> string"

definition request :: "world \<Rightarrow> call \<Rightarrow> call list \<Rightarrow> http_result \<times> call list" where
  "request w c hist = (respond w hist c, c # hist)"

subsection \<open>Field resolution\<close>

fun find_display_name :: "string \<Rightarrow> (pykey \<times> json) list \<Rightarrow> json option" where
  "find_display_name target_lower [] = None"
| "find_display_name target_lower ((key, val) # af) =
     (case key of
        KStr s \<Rightarrow> if lower s = target_lower then Some val
                  else find_display_name target_lower af
      | KInt _ \<Rightarrow> find_display_name target_lower af)"

definition resolve_field_id_by_display_name ::
  "world \<Rightarrow> archer \<Rightarrow> string \<Rightarrow> string \<Rightarrow> (exn + json) \<times> archer" where
  "resolve_field_id_by_display_name w a app_name field_display_name =
     (case from_application w app_name a of
        Inl e \<Rightarrow> (Inl e, a)
      | Inr a' \<Rightarrow>
          (case find_display_name (lower field_display_name) (application_fields_json a') of
             Some val \<Rightarrow> (Inr val, a')
           | None \<Rightarrow> (Inl FieldNotFound, a')))"

subsection \<open>Values lists and the search token\<close>

text \<open>
  \<open>application_fields_json.get(field_id)\<close>: a list or dict as key is unhashable;
  True and 1.0 are the key 1.
\<close>

fun fields_get :: "(pykey \<times> json) list \<Rightarrow> json \<Rightarrow> exn + json option" where
  "fields_get af JNull = Inr None"
| "fields_get af (JBool b) = Inr (map_of af (KInt (if b then 1 else 0)))"
| "fields_get af (JInt n) = Inr (map_of af (KInt n))"
| "fields_get af (JFloat (Finite r)) =
     Inr (if r = of_int \<lfloor>r\<rfloor> then map_of af (KInt \<lfloor>r\<rfloor>) else None)"
| "fields_get af (JFloat _) = Inr None"
| "fields_get af (JStr s) = Inr (map_of af (KStr s))"
| "fields_get af (JList xs) = Inl TypeError"
| "fields_get af (JDict d) = Inl TypeError"

definition is_values_list :: "archer \<Rightarrow> json \<Rightarrow> exn + bool" where
  "is_values_list a field_id =
     (case fields_get (application_fields_json a) field_id of
        Inl e \<Rightarrow> Inl e
      | Inr info \<Rightarrow>
          Inr (case info of
                 Some (JDict d) \<Rightarrow>
                   (case py_int (case map_of d ''Type'' of Some t \<Rightarrow> t | None \<Rightarrow> JInt (- 1)) of
                      Some n \<Rightarrow> n = 4
                    | None \<Rightarrow> False)
               | _ \<Rightarrow> False))"

definition no_match_token :: string where
  "no_match_token = ''__CLINE_VALUES_LIST_NO_MATCH__''"

definition get_value_or_value_id ::
  "world \<Rightarrow> archer \<Rightarrow> string \<Rightarrow> json \<Rightarrow> string \<Rightarrow> exn + json" where
  "get_value_or_value_id w a field_display_name field_id field_value =
     (case is_values_list a field_id of
        Inl e \<Rightarrow> Inl e
      | Inr vl \<Rightarrow>
          if vl then
            (case get_value_id_by_field_name_and_value w a field_display_name field_value of
               Inl e \<Rightarrow> Inl e
             | Inr ids \<Rightarrow> (case ids of [] \<Rightarrow> Inr (JStr no_match_token) | x # _ \<Rightarrow> Inr x))
          else Inr (JStr field_value))"

subsection \<open>Primary strategy: the REST search\<close>

definition search_url :: "archer \<Rightarrow> string" where
  "search_url a = api_url_base a @ ''core/content/record/search''"

definition probe_body :: "int \<Rightarrow> json" where
  "probe_body module_id =
     JDict [(''ModuleId'', JInt module_id),
            (''Page'', JDict [(''Start'', JInt 0), (''Size'', JInt 1)]),
            (''Filters'', JList [JDict [(''FieldId'', JInt 0), (''Operator'', JStr ''Equals''),
                                        (''Value'', JStr ''__CLINE_PROBE__'')]])]"

definition probe_call :: "archer \<Rightarrow> int \<Rightarrow> call" where
  "probe_call a module_id = Post (search_url a) (probe_body module_id) 10"

definition supports_rest_search ::
  "world \<Rightarrow> archer \<Rightarrow> int \<Rightarrow> call list \<Rightarrow> bool \<times> call list" where
  "supports_rest_search w a module_id hist =
     (case request w (probe_call a module_id) hist of
        (Raises, hist') \<Rightarrow> (False, hist')
      | (Response status_code body, hist') \<Rightarrow>
          (if status_code = 404 \<or> status_code = 405 then False else True, hist'))"

definition search_body :: "int \<Rightarrow> json \<Rightarrow> json \<Rightarrow> int \<Rightarrow> json" where
  "search_body module_id field_id val limit =
     JDict [(''ModuleId'', JInt module_id),
            (''Page'', JDict [(''Start'', JInt 0), (''Size'', JInt limit)]),
            (''Filters'', JList [JDict [(''FieldId'', field_id), (''Operator'', JStr ''Equals''),
                                        (''Value'', val)]]),
            (''ReturnFields'', JList [JStr ''Id''])]"

definition search_call :: "archer \<Rightarrow> int \<Rightarrow> json \<Rightarrow> json \<Rightarrow> int \<Rightarrow> call" where
  "search_call a module_id field_id val limit =
     Post (search_url a) (search_body module_id field_id val limit) 15"

text \<open>\<open>x.get("RequestedObject", {}).get("Id")\<close>\<close>

definition requested_object_id :: "json \<Rightarrow> json option" where
  "requested_object_id x =
     (case dict_get x ''RequestedObject'' (JDict []) of
        None \<Rightarrow> None
      | Some ro \<Rightarrow> dict_get ro ''Id'' JNull)"

text \<open>\<open>if rid: ids.append(int(rid))\<close>\<close>

definition append_if_truthy :: "json \<Rightarrow> int list \<Rightarrow> int list option" where
  "append_if_truthy rid ids =
     (if truthy rid then (case py_int rid of None \<Rightarrow> None | Some n \<Rightarrow> Some (ids @ [n]))
      else Some ids)"

fun rest_list_loop :: "json list \<Rightarrow> int list \<Rightarrow> int list option" where
  "rest_list_loop [] ids = Some ids"
| "rest_list_loop (item # items) ids =
     (case requested_object_id item of
        None \<Rightarrow> None
      | Some rid \<Rightarrow>
          (case append_if_truthy rid ids of
             None \<Rightarrow> None
           | Some ids' \<Rightarrow> rest_list_loop items ids'))"

definition is_id_key :: "string \<Rightarrow> bool" where
  "is_id_key k = (endswith (lower k) ''_id'' \<or> lower k = ''id'')"

text \<open>The inner loop with \<open>break\<close>: the value of the first such key, else None.\<close>

fun first_id_key :: "(string \<times> json) list \<Rightarrow> json" where
  "first_id_key [] = JNull"
| "first_id_key ((k, v) # kvs) = (if is_id_key k then v else first_id_key kvs)"

definition rest_value_item_id :: "json \<Rightarrow> json option" where
  "rest_value_item_id item =
     (case item of
        JDict d \<Rightarrow>
          (case map_of d ''RequestedObject'' of
             Some ro \<Rightarrow> dict_get ro ''Id'' JNull
           | None \<Rightarrow> Some (first_id_key d))
      | _ \<Rightarrow> Some JNull)"

fun rest_value_loop :: "json list \<Rightarrow> int list \<Rightarrow> int list option" where
  "rest_value_loop [] ids = Some ids"
| "rest_value_loop (item # items) ids =
     (case rest_value_item_id item of
        None \<Rightarrow> None
      | Some rid \<Rightarrow>
          (case append_if_truthy rid ids of
             None \<Rightarrow> None
           | Some ids' \<Rightarrow> rest_value_loop items ids'))"

text \<open>The three response shapes; None is an exception raised while parsing.\<close>

definition rest_parse :: "json \<Rightarrow> int list option" where
  "rest_parse data =
     (case data of
        JList items \<Rightarrow> rest_list_loop items []
      | JDict d \<Rightarrow>
          (case map_of d ''value'' of
             Some (JList items) \<Rightarrow> rest_value_loop items []
           | _ \<Rightarrow>
               (case requested_object_id data of
                  None \<Rightarrow> None
                | Some rid \<Rightarrow> append_if_truthy rid []))
      | _ \<Rightarrow> Some [])"

definition rest_search_record_ids ::
  "world \<Rightarrow> archer \<Rightarrow> int \<Rightarrow> json \<Rightarrow> json \<Rightarrow> int \<Rightarrow> call list \<Rightarrow> int list \<times> call list" where
  "rest_search_record_ids w a module_id field_id val limit hist =
     (case request w (search_call a module_id field_id val limit) hist of
        (Raises, hist') \<Rightarrow> ([], hist')
      | (Response status_code body, hist') \<Rightarrow>
          if status_code \<ge> 400 then ([], hist')
          else
            (case body of
               None \<Rightarrow> ([], hist')
             | Some data \<Rightarrow>
                 (case rest_parse data of None \<Rightarrow> ([], hist') | Some ids \<Rightarrow> (ids, hist'))))"

subsection \<open>Fallback strategy: the Content API\<close>

text \<open>
  \<open>app_name in name\<close>: a substring test on a string, membership in a list or among the
  keys of a dict; None is the TypeError of a number or a boolean.
\<close>

definition name_contains :: "string \<Rightarrow> json \<Rightarrow> bool option" where
  "name_contains app_name name =
     (case name of
        JStr s \<Rightarrow> Some (str_contains app_name s)
      | JList xs \<Rightarrow> Some (JStr app_name \<in> set xs)
      | JDict d \<Rightarrow> Some (app_name \<in> set (map fst d))
      | _ \<Rightarrow> None)"

text \<open>
  The loop over the directory entries. None is an exception; otherwise the url returned,
  \<open>JNull\<close> being Python's None.
\<close>

fun endpoint_loop :: "string \<Rightarrow> json list \<Rightarrow> json list \<Rightarrow> json option" where
  "endpoint_loop app_name [] candidates =
     Some (case candidates of [] \<Rightarrow> JNull | u # _ \<Rightarrow> u)"
| "endpoint_loop app_name (ep # eps) candidates =
     (case dict_get ep ''name'' (JStr []) of
        None \<Rightarrow> None
      | Some n \<Rightarrow>
          (case dict_get ep ''url'' JNull of
             None \<Rightarrow> None
           | Some url \<Rightarrow>
               if (if truthy n then n else JStr []) = JStr app_name then Some url
               else
                 (case name_contains app_name (if truthy n then n else JStr []) of
                    None \<Rightarrow> None
                  | Some c \<Rightarrow>
                      endpoint_loop app_name eps
                        (if c then candidates @ [url] else candidates))))"

text \<open>
  \<open>for ep in data.get("value", [])\<close>: over a string or a dict the loop meets strings,
  whose \<open>.get\<close> raises, or nothing; a number, a boolean or None cannot be iterated. All
  of them end in \<open>return None\<close>.
\<close>

definition endpoint_of_directory :: "string \<Rightarrow> json \<Rightarrow> json" where
  "endpoint_of_directory app_name data =
     (case dict_get data ''value'' (JList []) of
        Some (JList eps) \<Rightarrow>
          (case endpoint_loop app_name eps [] of None \<Rightarrow> JNull | Some url \<Rightarrow> url)
      | _ \<Rightarrow> JNull)"

definition directory_call :: "archer \<Rightarrow> call" where
  "directory_call a = Get (content_api_url_base a) 15"

definition get_grc_endpoint_url ::
  "world \<Rightarrow> archer \<Rightarrow> string \<Rightarrow> call list \<Rightarrow> json \<times> call list" where
  "get_grc_endpoint_url w a app_name hist =
     (case request w (directory_call a) hist of
        (Raises, hist') \<Rightarrow> (JNull, hist')
      | (Response status_code body, hist') \<Rightarrow>
          (case body of
             None \<Rightarrow> (JNull, hist')
           | Some data \<Rightarrow> (endpoint_of_directory app_name data, hist')))"

definition select_field :: "string \<Rightarrow> string" where
  "select_field endpoint_url = endpoint_url @ ''_Id''"

definition query_call :: "archer \<Rightarrow> string \<Rightarrow> string \<Rightarrow> string \<Rightarrow> call" where
  "query_call a endpoint_url field_display_name field_value =
     Get (content_api_url_base a @ endpoint_url @ ''?$filter=''
            @ quote_plus (field_display_name @ '' eq '' @ [CHR 0x27] @ field_value @ [CHR 0x27])
            @ ''&$select='' @ select_field endpoint_url) 15"

definition contentapi_item_id :: "string \<Rightarrow> json \<Rightarrow> json" where
  "contentapi_item_id sel item =
     (case item of
        JDict d \<Rightarrow>
          (case map_of d sel of
             Some v \<Rightarrow> if v = JNull then first_id_key d else v
           | None \<Rightarrow> first_id_key d)
      | _ \<Rightarrow> JNull)"

fun contentapi_loop :: "string \<Rightarrow> json list \<Rightarrow> int list \<Rightarrow> int list option" where
  "contentapi_loop sel [] ids = Some ids"
| "contentapi_loop sel (item # items) ids =
     (if contentapi_item_id sel item \<noteq> JNull then
        (case py_int (contentapi_item_id sel item) of
           None \<Rightarrow> None
         | Some n \<Rightarrow> contentapi_loop sel items (ids @ [n]))
      else contentapi_loop sel items ids)"

text \<open>
  \<open>for item in data.get("value", [])\<close>: the characters of a string and the keys of a
  dict are no dicts and are skipped; a number, a boolean or None cannot be iterated.
\<close>

definition contentapi_parse :: "string \<Rightarrow> json \<Rightarrow> int list option" where
  "contentapi_parse sel data =
     (case dict_get data ''value'' (JList []) of
        None \<Rightarrow> None
      | Some (JList items) \<Rightarrow> contentapi_loop sel items []
      | Some (JStr s) \<Rightarrow> Some []
      | Some (JDict d) \<Rightarrow> Some []
      | Some _ \<Rightarrow> None)"

definition contentapi_search_record_ids ::
  "world \<Rightarrow> archer \<Rightarrow> json \<Rightarrow> string \<Rightarrow> string \<Rightarrow> call list \<Rightarrow> int list \<times> call list" where
  "contentapi_search_record_ids w a endpoint_url field_display_name field_value hist =
     (case request w
             (query_call a (py_str (repr w) endpoint_url) field_display_name field_value) hist of
        (Raises, hist') \<Rightarrow> ([], hist')
      | (Response status_code body, hist') \<Rightarrow>
          if status_code \<ge> 400 then ([], hist')
          else
            (case body of
               None \<Rightarrow> ([], hist')
             | Some data \<Rightarrow>
                 (case contentapi_parse (select_field (py_str (repr w) endpoint_url)) data of
                    None \<Rightarrow> ([], hist')
                  | Some ids \<Rightarrow> (ids, hist'))))"

subsection \<open>The single-value lookup\<close>

text \<open>\<open>int(module_id_raw)\<close>, then \<open>int(str(module_id_raw))\<close>, then RuntimeError.\<close>

definition coerce_module_id :: "world \<Rightarrow> json \<Rightarrow> exn + int" where
  "coerce_module_id w module_id_raw =
     (case py_int module_id_raw of
        Some m \<Rightarrow> Inr m
      | None \<Rightarrow>
          (case py_int (JStr (py_str (repr w) module_id_raw)) of
             Some m \<Rightarrow> Inr m
           | None \<Rightarrow> Inl InvalidLevelId))"

text \<open>The end of \<open>get_record_id_by_field\<close>: none, one, or several ids.\<close>

definition classify :: "int list \<Rightarrow> exn + int option" where
  "classify ids =
     (case ids of
        [] \<Rightarrow> Inr None
      | [x] \<Rightarrow> Inr (Some x)
      | _ \<Rightarrow> Inl (AmbiguousMatch (DList ids)))"

text \<open>The state: the host client's data and the requests made so far.\<close>

type_synonym st = "archer \<times> call list"

definition get_record_id_by_field ::
  "world \<Rightarrow> string \<Rightarrow> string \<Rightarrow> string \<Rightarrow> st \<Rightarrow> (exn + int option) \<times> st" where
  "get_record_id_by_field w app_name field_display_name field_value s =
     (case resolve_field_id_by_display_name w (fst s) app_name field_display_name of
        (Inl e, a) \<Rightarrow> (Inl e, (a, snd s))
      | (Inr field_id, a) \<Rightarrow>
          (case coerce_module_id w (application_level_id a) of
             Inl e \<Rightarrow> (Inl e, (a, snd s))
           | Inr module_id \<Rightarrow>
               (case get_value_or_value_id w a field_display_name field_id field_value of
                  Inl e \<Rightarrow> (Inl e, (a, snd s))
                | Inr search_token \<Rightarrow>
                    (case supports_rest_search w a module_id (snd s) of
                       (True, h1) \<Rightarrow>
                         (case rest_search_record_ids w a module_id field_id search_token 2 h1 of
                            (ids, h2) \<Rightarrow> (classify ids, (a, h2)))
                     | (False, h1) \<Rightarrow>
                         (case get_grc_endpoint_url w a app_name h1 of
                            (endpoint, h2) \<Rightarrow>
                              if \<not> truthy endpoint then (Inr None, (a, h2))
                              else
                                (case contentapi_search_record_ids w a endpoint
                                        field_display_name field_value h2 of
                                   (ids, h3) \<Rightarrow> (classify ids, (a, h3))))))))"

subsection \<open>The bulk lookup\<close>

text \<open>\<open>d[k] = v\<close>: a key already there keeps its place.\<close>

fun dict_set :: "('k \<times> 'v) list \<Rightarrow> 'k \<Rightarrow> 'v \<Rightarrow> ('k \<times> 'v) list" where
  "dict_set [] k v = [(k, v)]"
| "dict_set ((k', v') # kvs) k v =
     (if k' = k then (k, v) # kvs else (k', v') # dict_set kvs k v)"

text \<open>
  The handler's normalisation of \<open>a.details\<close>: a falsy value becomes the empty list, a
  list is kept, the lists of a dict are concatenated.
\<close>

fun normalize_details :: "details \<Rightarrow> int list" where
  "normalize_details DNone = []"
| "normalize_details (DList xs) = xs"
| "normalize_details (DDict d) = concat (map snd d)"

text \<open>One pass of the \<open>for\<close> body, given the outcome of the single-value lookup.\<close>

definition record_outcome ::
  "string \<Rightarrow> exn + int option \<Rightarrow>
   (string \<times> int option) list \<times> (string \<times> int list) list \<Rightarrow>
   (string \<times> int option) list \<times> (string \<times> int list) list" where
  "record_outcome v r acc =
     (case r of
        Inr rid \<Rightarrow> (dict_set (fst acc) v rid, snd acc)
      | Inl e \<Rightarrow>
          (case e of
             AmbiguousMatch d \<Rightarrow>
               (dict_set (fst acc) v None, dict_set (snd acc) v (normalize_details d))
           | _ \<Rightarrow> (dict_set (fst acc) v None, snd acc)))"

fun bulk_loop ::
  "world \<Rightarrow> string \<Rightarrow> string \<Rightarrow> string list \<Rightarrow>
   (string \<times> int option) list \<times> (string \<times> int list) list \<Rightarrow> st \<Rightarrow>
   ((string \<times> int option) list \<times> (string \<times> int list) list) \<times> st" where
  "bulk_loop w app_name field_display_name [] acc s = (acc, s)"
| "bulk_loop w app_name field_display_name (v # vs) acc s =
     (case get_record_id_by_field w app_name field_display_name v s of
        (r, s') \<Rightarrow> bulk_loop w app_name field_display_name vs (record_outcome v r acc) s')"

definition get_record_ids_by_field_bulk ::
  "world \<Rightarrow> string \<Rightarrow> string \<Rightarrow> string list \<Rightarrow> st \<Rightarrow>
   (exn + (string \<times> int option) list) \<times> st" where
  "get_record_ids_by_field_bulk w app_name field_display_name vals s =
     (case bulk_loop w app_name field_display_name vals ([], []) s of
        ((results, ambiguities), s') \<Rightarrow>
          (if ambiguities \<noteq> [] then Inl (AmbiguousMatch (DDict ambiguities))
           else Inr results, s'))"

subsection \<open>Notions used to state the properties\<close>

text \<open>
  The outcomes of the single-value lookups that a bulk lookup makes, one after the other,
  each from the state its predecessor left, and the state after the last of them.
\<close>

fun lookup_outcomes ::
  "world \<Rightarrow> string \<Rightarrow> string \<Rightarrow> string list \<Rightarrow> st \<Rightarrow> (string \<times> (exn + int option)) list" where
  "lookup_outcomes w app_name field_display_name [] s = []"
| "lookup_outcomes w app_name field_display_name (v # vs) s =
     (v, fst (get_record_id_by_field w app_name field_display_name v s))
       # lookup_outcomes w app_name field_display_name vs
           (snd (get_record_id_by_field w app_name field_display_name v s))"

fun lookup_final_state :: "world \<Rightarrow> string \<Rightarrow> string \<Rightarrow> string list \<Rightarrow> st \<Rightarrow> st" where
  "lookup_final_state w app_name field_display_name [] s = s"
| "lookup_final_state w app_name field_display_name (v # vs) s =
     lookup_final_state w app_name field_display_name vs
       (snd (get_record_id_by_field w app_name field_display_name v s))"

definition is_ambiguous :: "exn + int option \<Rightarrow> bool" where
  "is_ambiguous r = (case r of Inl (AmbiguousMatch d) \<Rightarrow> True | _ \<Rightarrow> False)"

text \<open>What a bulk lookup stores for an outcome: the id, or None for absent and for any exception.\<close>

definition stored_id :: "exn + int option \<Rightarrow> int option" where
  "stored_id r = (case r of Inr rid \<Rightarrow> rid | Inl e \<Rightarrow> None)"

text \<open>The ids a bulk lookup notes for an ambiguous outcome.\<close>

definition ambiguous_ids :: "exn + int option \<Rightarrow> int list" where
  "ambiguous_ids r = (case r of Inl (AmbiguousMatch d) \<Rightarrow> normalize_details d | _ \<Rightarrow> [])"

text \<open>The accumulators of the bulk loop after a sequence of outcomes.\<close>

definition record_outcomes ::
  "(string \<times> int option) list \<times> (string \<times> int list) list \<Rightarrow>
   (string \<times> (exn + int option)) list \<Rightarrow>
   (string \<times> int option) list \<times> (string \<times> int list) list" where
  "record_outcomes acc outs = foldl (\<lambda>acc vr. record_outcome (fst vr) (snd vr) acc) acc outs"

text \<open>
  A field is declared a values list when its metadata entry is a dict whose Type is 4
  (as \<open>int\<close> reads it).
\<close>

definition declares_values_list :: "json option \<Rightarrow> bool" where
  "declares_values_list info =
     (case info of
        Some (JDict d) \<Rightarrow>
          (case map_of d ''Type'' of Some t \<Rightarrow> py_int t = Some 4 | None \<Rightarrow> False)
      | _ \<Rightarrow> False)"

text \<open>
  Response normalisation in the specification's words, to compare the parsers with. The
  identifiers are first read off the items, then filtered: the primary strategy keeps the
  truthy ones, the fallback strategy those that are not None. None is an exception.
\<close>

fun keep_truthy :: "json list \<Rightarrow> int list option" where
  "keep_truthy [] = Some []"
| "keep_truthy (r # rs) =
     (if truthy r then
        (case py_int r of None \<Rightarrow> None | Some n \<Rightarrow> map_option ((#) n) (keep_truthy rs))
      else keep_truthy rs)"

fun keep_not_none :: "json list \<Rightarrow> int list option" where
  "keep_not_none [] = Some []"
| "keep_not_none (r # rs) =
     (if r \<noteq> JNull then
        (case py_int r of None \<Rightarrow> None | Some n \<Rightarrow> map_option ((#) n) (keep_not_none rs))
      else keep_not_none rs)"

text \<open>The identifier nested as \<open>RequestedObject.Id\<close>; None when reading it raises.\<close>

definition spec_nested_identifier :: "json \<Rightarrow> json option" where
  "spec_nested_identifier x =
     (case x of
        JDict d \<Rightarrow>
          (case map_of d ''RequestedObject'' of
             None \<Rightarrow> Some JNull
           | Some (JDict ro) \<Rightarrow> Some (case map_of ro ''Id'' of None \<Rightarrow> JNull | Some r \<Rightarrow> r)
           | Some _ \<Rightarrow> None)
      | _ \<Rightarrow> None)"

text \<open>The value under the first key that is ``id'' or ends in ``\_id'', ignoring case.\<close>

definition spec_keyed_identifier :: "(string \<times> json) list \<Rightarrow> json" where
  "spec_keyed_identifier d =
     (case find (\<lambda>kv. is_id_key (fst kv)) d of None \<Rightarrow> JNull | Some kv \<Rightarrow> snd kv)"

text \<open>An item of a \<open>value\<close> array: nested if it has a RequestedObject, keyed otherwise.\<close>

definition spec_value_item_identifier :: "json \<Rightarrow> json option" where
  "spec_value_item_identifier item =
     (case item of
        JDict d \<Rightarrow>
          if ''RequestedObject'' \<in> fst ` set d then spec_nested_identifier item
          else Some (spec_keyed_identifier d)
      | _ \<Rightarrow> Some JNull)"

definition spec_rest_parse :: "json \<Rightarrow> int list option" where
  "spec_rest_parse data =
     (case data of
        JList items \<Rightarrow> Option.bind (those (map spec_nested_identifier items)) keep_truthy
      | JDict d \<Rightarrow>
          (case map_of d ''value'' of
             Some (JList items) \<Rightarrow>
               Option.bind (those (map spec_value_item_identifier items)) keep_truthy
           | _ \<Rightarrow> Option.bind (spec_nested_identifier data) (\<lambda>r. keep_truthy [r]))
      | _ \<Rightarrow> Some [])"

text \<open>
  An item of the fallback's \<open>value\<close> array: the value under the select field, or, when
  that is missing or None, the keyed identifier.
\<close>

definition spec_fallback_item_identifier :: "string \<Rightarrow> json \<Rightarrow> json" where
  "spec_fallback_item_identifier sel item =
     (case item of
        JDict d \<Rightarrow>
          (case map_of d sel of
             None \<Rightarrow> spec_keyed_identifier d
           | Some r \<Rightarrow> if r = JNull then spec_keyed_identifier d else r)
      | _ \<Rightarrow> JNull)"

definition spec_contentapi_parse :: "string \<Rightarrow> json \<Rightarrow> int list option" where
  "spec_contentapi_parse sel data =
     (case data of
        JDict d \<Rightarrow>
          (case map_of d ''value'' of
             None \<Rightarrow> Some []
           | Some (JList items) \<Rightarrow> keep_not_none (map (spec_fallback_item_identifier sel) items)
           | Some (JStr s) \<Rightarrow> Some []
           | Some (JDict kvs) \<Rightarrow> Some []
           | Some _ \<Rightarrow> None)
      | _ \<Rightarrow> None)"

text \<open>
  The directory as the Content API documents it: entries are dicts, a name is text (or
  missing, or empty).
\<close>

definition wf_entry :: "json \<Rightarrow> bool" where
  "wf_entry ep =
     (case ep of
        JDict d \<Rightarrow>
          (case map_of d ''name'' of
             None \<Rightarrow> True
           | Some (JStr s) \<Rightarrow> True
           | Some n \<Rightarrow> \<not> truthy n)
      | _ \<Rightarrow> False)"

definition entry_name :: "json \<Rightarrow> string" where
  "entry_name ep =
     (case ep of
        JDict d \<Rightarrow> (case map_of d ''name'' of Some (JStr s) \<Rightarrow> s | _ \<Rightarrow> [])
      | _ \<Rightarrow> [])"

definition entry_url :: "json \<Rightarrow> json" where
  "entry_url ep =
     (case ep of
        JDict d \<Rightarrow> (case map_of d ''url'' of Some u \<Rightarrow> u | None \<Rightarrow> JNull)
      | _ \<Rightarrow> JNull)"

text \<open>
  The selection in the specification's words: the entry named exactly like the
  application, else the first entry whose name contains the application's name, else None.
\<close>

definition spec_select_endpoint :: "string \<Rightarrow> json list \<Rightarrow> json" where
  "spec_select_endpoint app_name eps =
     (case find (\<lambda>ep. entry_name ep = app_name) eps of
        Some ep \<Rightarrow> entry_url ep
      | None \<Rightarrow>
          (case find (\<lambda>ep. str_contains app_name (entry_name ep)) eps of
             Some ep \<Rightarrow> entry_url ep
           | None \<Rightarrow> JNull))"

subsection \<open>The fixtures of test\_record\_search.py\<close>

text \<open>FakeArcher, with the field metadata a test gives it.\<close>

definition fake_archer :: "(pykey \<times> json) list \<Rightarrow> archer" where
  "fake_archer af =
     \<lparr>application_fields_json = af,
      application_level_id = JStr ''100'',
      api_url_base = ''https://fake/rsaarcher/api/'',
      content_api_url_base = ''https://fake/rsaarcher/contentapi/''\<rparr>"

definition ticket_fields :: "(pykey \<times> json) list" where
  "ticket_fields =
     [(KStr ''Ticket Number'', JInt 10),
      (KInt 10, JDict [(''Type'', JInt 1), (''FieldId'', JInt 10)])]"

definition status_fields :: "(pykey \<times> json) list" where
  "status_fields =
     [(KStr ''Status'', JInt 20),
      (KInt 20, JDict [(''Type'', JInt 4), (''FieldId'', JInt 20)])]"

text \<open>
  A mocked network that serves the given responses in the order of the requests, with a
  values-list helper \<open>vl\<close>; \<open>from_application\<close> does nothing.
\<close>

definition mock_world :: "(string \<Rightarrow> string \<Rightarrow> json list) \<Rightarrow> http_result list \<Rightarrow> world" where
  "mock_world vl rs =
     \<lparr>from_application = (\<lambda>app_name a. Inr a),
      get_value_id_by_field_name_and_value = (\<lambda>a field_name v. Inr (vl field_name v)),
      respond = (\<lambda>hist c. if length hist < length rs then rs ! length hist else Raises),
      repr = (\<lambda>v. [])\<rparr>"

definition no_values :: "string \<Rightarrow> string \<Rightarrow> json list" where
  "no_values field_name v = []"

text \<open>The helper of \<open>test_values_list_rest_search\<close>: ``Open'' of ``Status'' has the id 999.\<close>

definition open_values :: "string \<Rightarrow> string \<Rightarrow> json list" where
  "open_values field_name v =
     (if field_name = ''Status'' \<and> v = ''Open'' then [JInt 999] else [])"

definition nested_id :: "int \<Rightarrow> json" where
  "nested_id n = JDict [(''RequestedObject'', JDict [(''Id'', JInt n)])]"

definition ok_response :: "json \<Rightarrow> http_result" where
  "ok_response data = Response 200 (Some data)"

definition directory_response :: "string \<Rightarrow> string \<Rightarrow> http_result" where
  "directory_response name url =
     ok_response (JDict [(''value'', JList [JDict [(''name'', JStr name), (''url'', JStr url)]])])"

definition query_response :: "string \<Rightarrow> int \<Rightarrow> http_result" where
  "query_response key n = ok_response (JDict [(''value'', JList [JDict [(key, JInt n)]])])"

section \<open>Properties\<close>

subsection \<open>The requests each step makes\<close>

lemma snd_supports_rest_search:
  "snd (supports_rest_search w a m hist) = probe_call a m # hist"
  by (simp add: supports_rest_search_def request_def split: http_result.splits)

lemma snd_rest_search_record_ids:
  "snd (rest_search_record_ids w a m fid v limit hist) = search_call a m fid v limit # hist"
  by (simp add: rest_search_record_ids_def request_def split: http_result.splits option.splits)

lemma snd_get_grc_endpoint_url:
  "snd (get_grc_endpoint_url w a app hist) = directory_call a # hist"
  by (simp add: get_grc_endpoint_url_def request_def split: http_result.splits option.splits)

lemma snd_contentapi_search_record_ids:
  "snd (contentapi_search_record_ids w a ep fdn fv hist) =
     query_call a (py_str (repr w) ep) fdn fv # hist"
  by (simp add: contentapi_search_record_ids_def request_def
      split: http_result.splits option.splits)

subsection \<open>The capability probe\<close>

text \<open>
  C4. The probe answers false exactly when the request raises or the status code is 404 or
  405; with any other status code it answers true, whatever the body.
\<close>

theorem probe_false_iff:
  "(\<not> fst (supports_rest_search w a m hist)) =
     (respond w hist (probe_call a m) = Raises
      \<or> (\<exists>body. respond w hist (probe_call a m) = Response 404 body)
      \<or> (\<exists>body. respond w hist (probe_call a m) = Response 405 body))"
  by (auto simp add: supports_rest_search_def request_def split: http_result.splits)

theorem probe_false_iff_witness:
  "\<not> fst (supports_rest_search (mock_world no_values [Response 405 None])
            (fake_archer ticket_fields) 100 [])
   \<and> fst (supports_rest_search (mock_world no_values [Response 500 None])
            (fake_archer ticket_fields) 100 [])"
  using probe_false_iff [of "mock_world no_values [Response 405 None]"
                            "fake_archer ticket_fields" 100 "[]"]
        probe_false_iff [of "mock_world no_values [Response 500 None]"
                            "fake_archer ticket_fields" 100 "[]"]
  by (simp add: mock_world_def)

subsection \<open>Both strategies swallow operational failures\<close>

text \<open>
  C6. When the request raises, when the status code is 400 or more, and when the body
  cannot be decoded or parsing it raises, the REST search and the Content API query both
  return the empty list of ids.
\<close>

theorem strategies_never_raise:
  "(respond w hist (search_call a m fid v limit) = Raises
      \<or> (\<exists>sc body. respond w hist (search_call a m fid v limit) = Response sc body
            \<and> (400 \<le> sc \<or> body = None \<or> (\<exists>data. body = Some data \<and> rest_parse data = None)))
     \<longrightarrow> fst (rest_search_record_ids w a m fid v limit hist) = [])
   \<and> (respond w hist (query_call a (py_str (repr w) ep) fdn fv) = Raises
      \<or> (\<exists>sc body. respond w hist (query_call a (py_str (repr w) ep) fdn fv) = Response sc body
            \<and> (400 \<le> sc \<or> body = None
                \<or> (\<exists>data. body = Some data
                      \<and> contentapi_parse (select_field (py_str (repr w) ep)) data = None)))
     \<longrightarrow> fst (contentapi_search_record_ids w a ep fdn fv hist) = [])"
  by (auto simp add: rest_search_record_ids_def contentapi_search_record_ids_def request_def
      split: http_result.splits option.splits)

theorem strategies_never_raise_witness:
  "fst (rest_search_record_ids (mock_world no_values [Response 500 (Some (JList [nested_id 7]))])
          (fake_archer ticket_fields) 100 (JInt 10) (JStr ''X'') 2 []) = []
   \<and> fst (contentapi_search_record_ids
          (mock_world no_values [Response 500 (Some (JList [nested_id 7]))])
          (fake_archer ticket_fields) (JStr ''Endpoint'') ''Ticket Number'' ''X'' []) = []
   \<and> fst (rest_search_record_ids
          (mock_world no_values
             [ok_response (JList [JDict [(''RequestedObject'',
                                          JDict [(''Id'', JStr (CHR 0x1C # ''12''))])]])])
          (fake_archer ticket_fields) 100 (JInt 10) (JStr ''X'') 2 []) = []
   \<and> fst (contentapi_search_record_ids
          (mock_world no_values
             [ok_response (JDict [(''value'', JList [JDict [(''Endpoint_Id'', JStr ''12a'')]])])])
          (fake_archer ticket_fields) (JStr ''Endpoint'') ''Ticket Number'' ''X'' []) = []"
proof -
  let ?a = "fake_archer ticket_fields"
  let ?d = "JList [JDict [(''RequestedObject'', JDict [(''Id'', JStr (CHR 0x1C # ''12''))])]]"
  let ?e = "JDict [(''value'', JList [JDict [(''Endpoint_Id'', JStr ''12a'')]])]"
  let ?w = "mock_world no_values [Response 500 (Some (JList [nested_id 7]))]"
  let ?u = "mock_world no_values [ok_response ?d]"
  let ?v = "mock_world no_values [ok_response ?e]"
  have pd: "rest_parse ?d = None"
    by code_simp
  have pe: "contentapi_parse (select_field (py_str (repr ?v) (JStr ''Endpoint''))) ?e = None"
    by code_simp
  have ru: "respond ?u [] (search_call ?a 100 (JInt 10) (JStr ''X'') 2) = Response 200 (Some ?d)"
    by (simp add: mock_world_def ok_response_def)
  have rv: "respond ?v [] (query_call ?a (py_str (repr ?v) (JStr ''Endpoint''))
                             ''Ticket Number'' ''X'') = Response 200 (Some ?e)"
    by (simp add: mock_world_def ok_response_def)
  have a: "fst (rest_search_record_ids ?w ?a 100 (JInt 10) (JStr ''X'') 2 []) = []
           \<and> fst (contentapi_search_record_ids ?w ?a (JStr ''Endpoint'')
                   ''Ticket Number'' ''X'' []) = []"
    using strategies_never_raise
          [where w = ?w and hist = "[]" and a = ?a and m = 100
             and fid = "JInt 10" and v = "JStr ''X''" and limit = 2
             and ep = "JStr ''Endpoint''" and fdn = "''Ticket Number''" and fv = "''X''"]
    by (simp add: mock_world_def)
  have b: "fst (rest_search_record_ids ?u ?a 100 (JInt 10) (JStr ''X'') 2 []) = []"
    using strategies_never_raise
          [where w = ?u and hist = "[]" and a = ?a and m = 100
             and fid = "JInt 10" and v = "JStr ''X''" and limit = 2] ru pd
    by blast
  have c: "fst (contentapi_search_record_ids ?v ?a (JStr ''Endpoint'')
                   ''Ticket Number'' ''X'' []) = []"
    using strategies_never_raise
          [where w = ?v and hist = "[]" and a = ?a
             and ep = "JStr ''Endpoint''" and fdn = "''Ticket Number''" and fv = "''X''"] rv pe
    by blast
  from a b c show ?thesis by simp
qed

subsection \<open>Resolving a display name\<close>

lemma find_display_name_None:
  "(find_display_name t af = None) = (\<forall>s v. (KStr s, v) \<in> set af \<longrightarrow> lower s \<noteq> t)"
proof (induction af)
  case Nil
  show ?case by simp
next
  case (Cons kv af)
  obtain k v where kv: "kv = (k, v)" by (cases kv)
  show ?case
  proof (cases k)
    case (KStr s)
    with Cons kv show ?thesis by (cases "lower s = t") auto
  next
    case (KInt n)
    with Cons kv show ?thesis by auto
  qed
qed

lemma find_display_name_Some:
  "find_display_name t af = Some v \<Longrightarrow> \<exists>s. (KStr s, v) \<in> set af \<and> lower s = t"
  by (induction af) (auto split: pykey.splits if_splits)

text \<open>
  C8. Once the metadata is loaded, a display name that equals some string key ignoring case
  resolves to the id stored under such a key; a display name that equals none raises the
  field-not-found error.
\<close>

theorem resolve_field_case_insensitive:
  assumes "from_application w app a = Inr a'"
  shows "((\<exists>s v. (KStr s, v) \<in> set (application_fields_json a') \<and> lower s = lower fdn) \<longrightarrow>
           (\<exists>s v. fst (resolve_field_id_by_display_name w a app fdn) = Inr v
                 \<and> (KStr s, v) \<in> set (application_fields_json a') \<and> lower s = lower fdn))
       \<and> (\<not> (\<exists>s v. (KStr s, v) \<in> set (application_fields_json a') \<and> lower s = lower fdn) \<longrightarrow>
           fst (resolve_field_id_by_display_name w a app fdn) = Inl FieldNotFound)"
proof (cases "find_display_name (lower fdn) (application_fields_json a')")
  case None
  then show ?thesis
    using assms find_display_name_None [of "lower fdn" "application_fields_json a'"]
    by (auto simp add: resolve_field_id_by_display_name_def)
next
  case (Some v)
  then show ?thesis
    using assms find_display_name_Some [OF Some]
    by (auto simp add: resolve_field_id_by_display_name_def)
qed

theorem resolve_field_case_insensitive_witness:
  "from_application (mock_world no_values []) ''App'' (fake_archer ticket_fields)
     = Inr (fake_archer ticket_fields)
   \<and> fst (resolve_field_id_by_display_name (mock_world no_values []) (fake_archer ticket_fields)
            ''App'' ''ticket number'') = Inr (JInt 10)
   \<and> fst (resolve_field_id_by_display_name (mock_world no_values []) (fake_archer ticket_fields)
            ''App'' ''Ticket'') = Inl FieldNotFound
   \<and> fst (resolve_field_id_by_display_name (mock_world no_values [])
            (fake_archer [(KStr [CHR ''C'', CHR ''A'', CHR ''F'', CHR 0xC9], JInt 7)])
            ''App'' [CHR ''c'', CHR ''a'', CHR ''f'', CHR 0xE9]) = Inr (JInt 7)"
proof -
  let ?w = "mock_world no_values []"
  let ?a = "fake_archer ticket_fields"
  let ?K = "[CHR ''C'', CHR ''A'', CHR ''F'', CHR 0xC9]"
  let ?k = "[CHR ''c'', CHR ''a'', CHR ''f'', CHR 0xE9]"
  let ?c = "fake_archer [(KStr ?K, JInt 7)]"
  have h: "from_application ?w ''App'' ?a = Inr ?a"
    by (simp add: mock_world_def)
  have h': "from_application ?w ''App'' ?c = Inr ?c"
    by (simp add: mock_world_def)
  have l1: "lower ''Ticket Number'' = lower ''ticket number''"
    by code_simp
  have l2: "lower ''Ticket Number'' \<noteq> lower ''Ticket''"
    by code_simp
  have l3: "lower ?K = lower ?k"
    by code_simp
  have yes: "\<exists>s v. (KStr s, v) \<in> set (application_fields_json ?a)
               \<and> lower s = lower ''ticket number''"
    by (intro exI [of _ "''Ticket Number''"] exI [of _ "JInt 10"])
       (simp add: fake_archer_def ticket_fields_def l1)
  have no: "\<not> (\<exists>s v. (KStr s, v) \<in> set (application_fields_json ?a)
               \<and> lower s = lower ''Ticket'')"
    using l2 by (auto simp add: fake_archer_def ticket_fields_def)
  have yes': "\<exists>s v. (KStr s, v) \<in> set (application_fields_json ?c) \<and> lower s = lower ?k"
    by (intro exI [of _ ?K] exI [of _ "JInt 7"]) (simp add: fake_archer_def l3)
  from resolve_field_case_insensitive [OF h, of "''ticket number''"] yes
  have "\<exists>s v. fst (resolve_field_id_by_display_name ?w ?a ''App'' ''ticket number'') = Inr v
               \<and> (KStr s, v) \<in> set (application_fields_json ?a)"
    by blast
  then have a: "fst (resolve_field_id_by_display_name ?w ?a ''App'' ''ticket number'')
                  = Inr (JInt 10)"
    by (auto simp add: fake_archer_def ticket_fields_def)
  from resolve_field_case_insensitive [OF h, of "''Ticket''"] no
  have b: "fst (resolve_field_id_by_display_name ?w ?a ''App'' ''Ticket'') = Inl FieldNotFound"
    by blast
  from resolve_field_case_insensitive [OF h', of ?k] yes'
  have "\<exists>s v. fst (resolve_field_id_by_display_name ?w ?c ''App'' ?k) = Inr v
               \<and> (KStr s, v) \<in> set (application_fields_json ?c)"
    by blast
  then have c: "fst (resolve_field_id_by_display_name ?w ?c ''App'' ?k) = Inr (JInt 7)"
    by (auto simp add: fake_archer_def)
  from h a b c show ?thesis by simp
qed

subsection \<open>The single-value lookup, step by step\<close>

lemma lookup_resolve_error:
  assumes "fst (resolve_field_id_by_display_name w a app fdn) = Inl e"
  shows "fst (get_record_id_by_field w app fdn fv (a, hist)) = Inl e"
  using assms by (simp add: get_record_id_by_field_def case_prod_beta split: sum.splits)

lemma lookup_module_id_error:
  assumes "resolve_field_id_by_display_name w a app fdn = (Inr fid, a1)"
    and "coerce_module_id w (application_level_id a1) = Inl e"
  shows "get_record_id_by_field w app fdn fv (a, hist) = (Inl e, (a1, hist))"
  using assms by (simp add: get_record_id_by_field_def)

lemma lookup_token_error:
  assumes "resolve_field_id_by_display_name w a app fdn = (Inr fid, a1)"
    and "coerce_module_id w (application_level_id a1) = Inr m"
    and "get_value_or_value_id w a1 fdn fid fv = Inl e"
  shows "get_record_id_by_field w app fdn fv (a, hist) = (Inl e, (a1, hist))"
  using assms by (simp add: get_record_id_by_field_def)

lemma lookup_primary:
  assumes "resolve_field_id_by_display_name w a app fdn = (Inr fid, a1)"
    and "coerce_module_id w (application_level_id a1) = Inr m"
    and "get_value_or_value_id w a1 fdn fid fv = Inr tok"
    and "fst (supports_rest_search w a1 m hist)"
  shows "get_record_id_by_field w app fdn fv (a, hist) =
     (classify (fst (rest_search_record_ids w a1 m fid tok 2 (probe_call a1 m # hist))),
      (a1, search_call a1 m fid tok 2 # probe_call a1 m # hist))"
proof -
  obtain b h1 where p: "supports_rest_search w a1 m hist = (b, h1)"
    by (cases "supports_rest_search w a1 m hist")
  with assms(4) snd_supports_rest_search [of w a1 m hist]
  have b: "b" and h1: "h1 = probe_call a1 m # hist" by simp_all
  obtain ids h2 where r: "rest_search_record_ids w a1 m fid tok 2 h1 = (ids, h2)"
    by (cases "rest_search_record_ids w a1 m fid tok 2 h1")
  with snd_rest_search_record_ids [of w a1 m fid tok 2 h1]
  have h2: "h2 = search_call a1 m fid tok 2 # h1" by simp
  show ?thesis
    using assms(1-3) p b r h1 h2 by (simp add: get_record_id_by_field_def)
qed

lemma lookup_fallback:
  assumes "resolve_field_id_by_display_name w a app fdn = (Inr fid, a1)"
    and "coerce_module_id w (application_level_id a1) = Inr m"
    and "get_value_or_value_id w a1 fdn fid fv = Inr tok"
    and "\<not> fst (supports_rest_search w a1 m hist)"
    and "endpoint = fst (get_grc_endpoint_url w a1 app (probe_call a1 m # hist))"
  shows "get_record_id_by_field w app fdn fv (a, hist) =
     (if \<not> truthy endpoint then (Inr None, (a1, directory_call a1 # probe_call a1 m # hist))
      else
        (classify (fst (contentapi_search_record_ids w a1 endpoint fdn fv
                          (directory_call a1 # probe_call a1 m # hist))),
         (a1, query_call a1 (py_str (repr w) endpoint) fdn fv
                # directory_call a1 # probe_call a1 m # hist)))"
proof -
  obtain b h1 where p: "supports_rest_search w a1 m hist = (b, h1)"
    by (cases "supports_rest_search w a1 m hist")
  with assms(4) snd_supports_rest_search [of w a1 m hist]
  have b: "\<not> b" and h1: "h1 = probe_call a1 m # hist" by simp_all
  obtain e h2 where g: "get_grc_endpoint_url w a1 app h1 = (e, h2)"
    by (cases "get_grc_endpoint_url w a1 app h1")
  with snd_get_grc_endpoint_url [of w a1 app h1] assms(5) h1
  have e: "e = endpoint" and h2: "h2 = directory_call a1 # h1" by simp_all
  obtain ids h3 where c: "contentapi_search_record_ids w a1 endpoint fdn fv h2 = (ids, h3)"
    by (cases "contentapi_search_record_ids w a1 endpoint fdn fv h2")
  with snd_contentapi_search_record_ids [of w a1 endpoint fdn fv h2]
  have h3: "h3 = query_call a1 (py_str (repr w) endpoint) fdn fv # h2" by simp
  show ?thesis
    using assms(1-3) p b g e c h1 h2 h3 by (simp add: get_record_id_by_field_def)
qed

lemma classify_cases:
  "(ids = [] \<longrightarrow> classify ids = Inr None)
   \<and> (\<forall>x. ids = [x] \<longrightarrow> classify ids = Inr (Some x))
   \<and> (2 \<le> length ids \<longrightarrow> classify ids = Inl (AmbiguousMatch (DList ids)))"
  by (auto simp add: classify_def split: list.splits)

text \<open>
  C3. When the lookup reaches a search strategy (the REST search when the probe succeeds,
  the Content API query when it fails and an endpoint was discovered), it classifies the
  ids the strategy returns by their number: none gives absent, one gives that id, two or
  more raise the ambiguous match carrying all of them in the order returned.
\<close>

theorem lookup_classifies_by_count:
  assumes "resolve_field_id_by_display_name w a app fdn = (Inr fid, a1)"
    and "coerce_module_id w (application_level_id a1) = Inr m"
    and "get_value_or_value_id w a1 fdn fid fv = Inr tok"
    and "ids = (if fst (supports_rest_search w a1 m hist)
                then fst (rest_search_record_ids w a1 m fid tok 2 (probe_call a1 m # hist))
                else fst (contentapi_search_record_ids w a1 endpoint fdn fv
                            (directory_call a1 # probe_call a1 m # hist)))"
    and "endpoint = fst (get_grc_endpoint_url w a1 app (probe_call a1 m # hist))"
    and "fst (supports_rest_search w a1 m hist) \<or> truthy endpoint"
  shows "(ids = [] \<longrightarrow> fst (get_record_id_by_field w app fdn fv (a, hist)) = Inr None)
       \<and> (\<forall>x. ids = [x] \<longrightarrow> fst (get_record_id_by_field w app fdn fv (a, hist)) = Inr (Some x))
       \<and> (2 \<le> length ids \<longrightarrow>
            fst (get_record_id_by_field w app fdn fv (a, hist)) = Inl (AmbiguousMatch (DList ids)))"
proof -
  have "fst (get_record_id_by_field w app fdn fv (a, hist)) = classify ids"
  proof (cases "fst (supports_rest_search w a1 m hist)")
    case True
    with assms(4) lookup_primary [OF assms(1-3) True] show ?thesis by simp
  next
    case False
    with assms(6) have "truthy endpoint" by simp
    with assms(4) False lookup_fallback [OF assms(1-3) False assms(5)] show ?thesis by simp
  qed
  with classify_cases [of ids] show ?thesis by simp
qed

theorem lookup_classifies_by_count_witness:
  "fst (get_record_id_by_field
          (mock_world no_values [ok_response (JDict []), ok_response (JList [nested_id 1, nested_id 2])])
          ''App'' ''Ticket Number'' ''DUP'' (fake_archer ticket_fields, []))
     = Inl (AmbiguousMatch (DList [1, 2]))
   \<and> fst (get_record_id_by_field
          (mock_world no_values [Response 404 None, directory_response ''App'' ''Endpoint'',
                                 query_response ''Endpoint_Id'' 222])
          ''App'' ''Ticket Number'' ''XYZ'' (fake_archer ticket_fields, []))
     = Inr (Some 222)"
proof -
  let ?a = "fake_archer ticket_fields"
  let ?w = "mock_world no_values
              [ok_response (JDict []), ok_response (JList [nested_id 1, nested_id 2])]"
  let ?v = "mock_world no_values [Response 404 None, directory_response ''App'' ''Endpoint'',
                                 query_response ''Endpoint_Id'' 222]"
  have r: "resolve_field_id_by_display_name ?w ?a ''App'' ''Ticket Number'' = (Inr (JInt 10), ?a)"
    by code_simp
  have m: "coerce_module_id ?w (application_level_id ?a) = Inr 100"
    by code_simp
  have t: "get_value_or_value_id ?w ?a ''Ticket Number'' (JInt 10) ''DUP'' = Inr (JStr ''DUP'')"
    by code_simp
  have i: "[1, 2] = (if fst (supports_rest_search ?w ?a 100 [])
                then fst (rest_search_record_ids ?w ?a 100 (JInt 10) (JStr ''DUP'') 2
                            (probe_call ?a 100 # []))
                else fst (contentapi_search_record_ids ?w ?a
                            (fst (get_grc_endpoint_url ?w ?a ''App'' (probe_call ?a 100 # [])))
                            ''Ticket Number'' ''DUP''
                            (directory_call ?a # probe_call ?a 100 # [])))"
    by code_simp
  have p: "fst (supports_rest_search ?w ?a 100 [])
           \<or> truthy (fst (get_grc_endpoint_url ?w ?a ''App'' (probe_call ?a 100 # [])))"
    by code_simp
  have r': "resolve_field_id_by_display_name ?v ?a ''App'' ''Ticket Number'' = (Inr (JInt 10), ?a)"
    by code_simp
  have m': "coerce_module_id ?v (application_level_id ?a) = Inr 100"
    by code_simp
  have t': "get_value_or_value_id ?v ?a ''Ticket Number'' (JInt 10) ''XYZ'' = Inr (JStr ''XYZ'')"
    by code_simp
  have i': "[222] = (if fst (supports_rest_search ?v ?a 100 [])
                then fst (rest_search_record_ids ?v ?a 100 (JInt 10) (JStr ''XYZ'') 2
                            (probe_call ?a 100 # []))
                else fst (contentapi_search_record_ids ?v ?a
                            (fst (get_grc_endpoint_url ?v ?a ''App'' (probe_call ?a 100 # [])))
                            ''Ticket Number'' ''XYZ''
                            (directory_call ?a # probe_call ?a 100 # [])))"
    by code_simp
  have p': "fst (supports_rest_search ?v ?a 100 [])
           \<or> truthy (fst (get_grc_endpoint_url ?v ?a ''App'' (probe_call ?a 100 # [])))"
    by code_simp
  from lookup_classifies_by_count [OF r m t i refl p]
       lookup_classifies_by_count [OF r' m' t' i' refl p']
  show ?thesis by simp
qed

subsection \<open>Parsing responses and choosing an endpoint\<close>

lemma rest_search_ok:
  assumes "respond w hist (search_call a m fid v limit) = Response sc (Some data)"
    and "sc < 400"
  shows "fst (rest_search_record_ids w a m fid v limit hist) =
           (case rest_parse data of None \<Rightarrow> [] | Some ids \<Rightarrow> ids)"
  using assms by (simp add: rest_search_record_ids_def request_def split: option.splits)

lemma contentapi_search_ok:
  assumes "respond w hist (query_call a (py_str (repr w) ep) fdn fv) = Response sc (Some data)"
    and "sc < 400"
  shows "fst (contentapi_search_record_ids w a ep fdn fv hist) =
           (case contentapi_parse (select_field (py_str (repr w) ep)) data of
              None \<Rightarrow> [] | Some ids \<Rightarrow> ids)"
  using assms by (simp add: contentapi_search_record_ids_def request_def split: option.splits)

lemma wf_entry_name:
  assumes "wf_entry ep"
  shows "\<exists>n. dict_get ep ''name'' (JStr []) = Some n
           \<and> (if truthy n then n else JStr []) = JStr (entry_name ep)"
proof -
  from assms obtain d where d: "ep = JDict d"
    by (cases ep) (simp_all add: wf_entry_def)
  show ?thesis
  proof (cases "map_of d ''name''")
    case None
    with d show ?thesis by (simp add: dict_get_def entry_name_def)
  next
    case (Some n)
    with d assms show ?thesis
      by (cases n) (auto simp add: dict_get_def entry_name_def wf_entry_def)
  qed
qed

lemma wf_entry_url:
  assumes "wf_entry ep"
  shows "dict_get ep ''url'' JNull = Some (entry_url ep)"
  using assms
  by (cases ep) (simp_all add: wf_entry_def dict_get_def entry_url_def split: option.splits)

lemma first_candidate_find:
  "(case map f (filter P xs) of [] \<Rightarrow> z | u # us \<Rightarrow> u) =
     (case find P xs of None \<Rightarrow> z | Some x \<Rightarrow> f x)"
  by (induction xs) simp_all

lemma endpoint_loop_wf:
  assumes "\<forall>ep \<in> set eps. wf_entry ep"
  shows "endpoint_loop app eps cands =
     Some (case find (\<lambda>ep. entry_name ep = app) eps of
             Some ep \<Rightarrow> entry_url ep
           | None \<Rightarrow>
               (case cands @ map entry_url (filter (\<lambda>ep. str_contains app (entry_name ep)) eps) of
                  [] \<Rightarrow> JNull
                | u # us \<Rightarrow> u))"
  using assms
proof (induction eps arbitrary: cands)
  case Nil
  show ?case by (simp split: list.splits)
next
  case (Cons ep eps)
  from Cons.prems have wf: "wf_entry ep" and rest: "\<forall>ep \<in> set eps. wf_entry ep" by simp_all
  from wf_entry_name [OF wf] obtain n where
    n: "dict_get ep ''name'' (JStr []) = Some n"
    and e: "(if truthy n then n else JStr []) = JStr (entry_name ep)" by blast
  note u = wf_entry_url [OF wf]
  show ?case
  proof (cases "entry_name ep = app")
    case True
    with n e u show ?thesis by simp
  next
    case False
    with n e u Cons.IH [OF rest] show ?thesis
      by (simp add: name_contains_def split: option.splits)
  qed
qed

lemma endpoint_of_directory_wf:
  assumes "map_of d ''value'' = Some (JList eps)" and "\<forall>ep \<in> set eps. wf_entry ep"
  shows "endpoint_of_directory app (JDict d) = spec_select_endpoint app eps"
  using assms(1) endpoint_loop_wf [OF assms(2), of app "[]"]
  by (simp add: endpoint_of_directory_def dict_get_def spec_select_endpoint_def
      first_candidate_find split: option.splits)

subsection \<open>The lookup when the probe reports the REST search unsupported\<close>

text \<open>
  C5, as the code has it. When the probe answers false the lookup makes no REST search:
  its requests are the probe, the directory listing and at most one Content API query.
  Discovery gives None when the listing request raises or its body cannot be decoded; on a
  listing whose entries are dicts with textual (or missing, or empty) names it gives the url
  of the entry named exactly like the application, else of the first entry whose name
  contains the application's name, else None. When the discovered url is falsy (None, but
  also the empty string) the lookup returns absent without a query; otherwise it classifies
  the ids of the Content API query.
\<close>

theorem fallback_when_probe_unsupported:
  assumes "resolve_field_id_by_display_name w a app fdn = (Inr fid, a1)"
    and "coerce_module_id w (application_level_id a1) = Inr m"
    and "get_value_or_value_id w a1 fdn fid fv = Inr tok"
    and "\<not> fst (supports_rest_search w a1 m hist)"
    and "h1 = probe_call a1 m # hist"
    and "endpoint = fst (get_grc_endpoint_url w a1 app h1)"
  shows "(respond w h1 (directory_call a1) = Raises \<longrightarrow> endpoint = JNull)
       \<and> (\<forall>sc. respond w h1 (directory_call a1) = Response sc None \<longrightarrow> endpoint = JNull)
       \<and> (\<forall>sc d eps. respond w h1 (directory_call a1) = Response sc (Some (JDict d))
               \<and> map_of d ''value'' = Some (JList eps) \<and> (\<forall>ep \<in> set eps. wf_entry ep)
             \<longrightarrow> endpoint = spec_select_endpoint app eps)
       \<and> (\<not> truthy endpoint \<longrightarrow>
            get_record_id_by_field w app fdn fv (a, hist) =
              (Inr None, (a1, directory_call a1 # h1)))
       \<and> (truthy endpoint \<longrightarrow>
            get_record_id_by_field w app fdn fv (a, hist) =
              (classify (fst (contentapi_search_record_ids w a1 endpoint fdn fv
                                (directory_call a1 # h1))),
               (a1, query_call a1 (py_str (repr w) endpoint) fdn fv # directory_call a1 # h1)))
       \<and> (\<forall>m' fid' v limit.
            search_call a1 m' fid' v limit
              \<notin> {query_call a1 (py_str (repr w) endpoint) fdn fv, directory_call a1,
                  probe_call a1 m})"
proof -
  have raises: "respond w h1 (directory_call a1) = Raises \<longrightarrow> endpoint = JNull"
    using assms(6) by (simp add: get_grc_endpoint_url_def request_def)
  have undecoded: "\<forall>sc. respond w h1 (directory_call a1) = Response sc None \<longrightarrow> endpoint = JNull"
    using assms(6) by (simp add: get_grc_endpoint_url_def request_def)
  have selected: "\<forall>sc d eps. respond w h1 (directory_call a1) = Response sc (Some (JDict d))
               \<and> map_of d ''value'' = Some (JList eps) \<and> (\<forall>ep \<in> set eps. wf_entry ep)
             \<longrightarrow> endpoint = spec_select_endpoint app eps"
    using assms(6) endpoint_of_directory_wf
    by (auto simp add: get_grc_endpoint_url_def request_def)
  have lookup: "get_record_id_by_field w app fdn fv (a, hist) =
     (if \<not> truthy endpoint then (Inr None, (a1, directory_call a1 # h1))
      else
        (classify (fst (contentapi_search_record_ids w a1 endpoint fdn fv
                          (directory_call a1 # h1))),
         (a1, query_call a1 (py_str (repr w) endpoint) fdn fv # directory_call a1 # h1)))"
    using lookup_fallback [OF assms(1-4)] assms(5,6) by simp
  have calls: "\<forall>m' fid' v limit.
            search_call a1 m' fid' v limit
              \<notin> {query_call a1 (py_str (repr w) endpoint) fdn fv, directory_call a1,
                  probe_call a1 m}"
    by (simp add: search_call_def query_call_def directory_call_def probe_call_def)
  from raises undecoded selected lookup calls show ?thesis by simp
qed

theorem fallback_when_probe_unsupported_witness:
  "fst (get_grc_endpoint_url
          (mock_world no_values [Response 404 None, directory_response ''App'' ''Endpoint'',
                                 query_response ''Endpoint_Id'' 222])
          (fake_archer ticket_fields) ''App'' [probe_call (fake_archer ticket_fields) 100])
     = JStr ''Endpoint''
   \<and> fst (get_record_id_by_field
          (mock_world no_values [Response 404 None, directory_response ''App'' ''Endpoint'',
                                 query_response ''Endpoint_Id'' 222])
          ''App'' ''Ticket Number'' ''XYZ'' (fake_archer ticket_fields, []))
     = Inr (Some 222)"
proof -
  let ?a = "fake_archer ticket_fields"
  let ?v = "mock_world no_values [Response 404 None, directory_response ''App'' ''Endpoint'',
                                 query_response ''Endpoint_Id'' 222]"
  have r: "resolve_field_id_by_display_name ?v ?a ''App'' ''Ticket Number'' = (Inr (JInt 10), ?a)"
    by code_simp
  have m: "coerce_module_id ?v (application_level_id ?a) = Inr 100"
    by code_simp
  have t: "get_value_or_value_id ?v ?a ''Ticket Number'' (JInt 10) ''XYZ'' = Inr (JStr ''XYZ'')"
    by code_simp
  have p: "\<not> fst (supports_rest_search ?v ?a 100 [])"
    by code_simp
  have e: "fst (get_grc_endpoint_url ?v ?a ''App'' (probe_call ?a 100 # [])) = JStr ''Endpoint''"
    by code_simp
  have c: "classify (fst (contentapi_search_record_ids ?v ?a (JStr ''Endpoint'')
             ''Ticket Number'' ''XYZ'' (directory_call ?a # probe_call ?a 100 # [])))
           = Inr (Some 222)"
    by code_simp
  from fallback_when_probe_unsupported [OF r m t p refl refl] e c
  show ?thesis by simp
qed

text \<open>
  The specification lets only an absent discovery end the lookup. Here the entry named
  exactly like the application has the empty string as url: discovery returns it (it is
  not None), the query on it would find record 222, and yet the lookup returns absent and
  makes no query. It also has discovery select the entry named exactly like the
  application whenever there is one; in the last listing such an entry follows an entry
  whose name is the number 5, on which \<open>app_name in name\<close> raises, and discovery gives
  None.
\<close>

theorem empty_endpoint_counterexample:
  "fst (get_grc_endpoint_url
          (mock_world no_values [Response 404 None, directory_response ''App'' [],
                                 query_response ''_Id'' 222])
          (fake_archer ticket_fields) ''App'' [probe_call (fake_archer ticket_fields) 100])
     = JStr []
   \<and> JStr [] \<noteq> JNull
   \<and> classify (fst (contentapi_search_record_ids
          (mock_world no_values [Response 404 None, directory_response ''App'' [],
                                 query_response ''_Id'' 222])
          (fake_archer ticket_fields) (JStr []) ''Ticket Number'' ''XYZ''
          [directory_call (fake_archer ticket_fields), probe_call (fake_archer ticket_fields) 100]))
     = Inr (Some 222)
   \<and> get_record_id_by_field
          (mock_world no_values [Response 404 None, directory_response ''App'' [],
                                 query_response ''_Id'' 222])
          ''App'' ''Ticket Number'' ''XYZ'' (fake_archer ticket_fields, [])
     = (Inr None,
        (fake_archer ticket_fields,
         [directory_call (fake_archer ticket_fields), probe_call (fake_archer ticket_fields) 100]))
   \<and> fst (get_grc_endpoint_url
          (mock_world no_values
             [Response 404 None,
              ok_response (JDict [(''value'',
                 JList [JDict [(''name'', JInt 5), (''url'', JStr ''X'')],
                        JDict [(''name'', JStr ''App''), (''url'', JStr ''Endpoint'')]])])])
          (fake_archer ticket_fields) ''App'' [probe_call (fake_archer ticket_fields) 100])
     = JNull"
  by code_simp

subsection \<open>Record id 0 in the two strategies\<close>

lemma requested_object_id_spec: "requested_object_id x = spec_nested_identifier x"
  by (cases x)
     (simp_all add: requested_object_id_def spec_nested_identifier_def dict_get_def
        split: option.splits json.splits)

lemma first_id_key_spec: "first_id_key d = spec_keyed_identifier d"
  by (induction d) (auto simp add: spec_keyed_identifier_def)

lemma rest_value_item_id_spec: "rest_value_item_id item = spec_value_item_identifier item"
proof (cases item)
  case (JDict d)
  show ?thesis
  proof (cases "map_of d ''RequestedObject''")
    case None
    then have "''RequestedObject'' \<notin> fst ` set d"
      by (simp add: map_of_eq_None_iff)
    with None JDict show ?thesis
      by (simp add: rest_value_item_id_def spec_value_item_identifier_def first_id_key_spec)
  next
    case (Some ro)
    then have "''RequestedObject'' \<in> fst ` set d"
      by (metis map_of_eq_None_iff option.distinct(1))
    with Some JDict show ?thesis
      by (cases ro)
         (simp_all add: rest_value_item_id_def spec_value_item_identifier_def
            spec_nested_identifier_def dict_get_def split: option.splits)
  qed
qed (simp_all add: rest_value_item_id_def spec_value_item_identifier_def)

lemma contentapi_item_id_spec:
  "contentapi_item_id sel item = spec_fallback_item_identifier sel item"
  by (cases item)
     (simp_all add: contentapi_item_id_def spec_fallback_item_identifier_def first_id_key_spec
        split: option.splits)

lemma append_if_truthy_keep:
  "(case append_if_truthy r ids of None \<Rightarrow> None | Some ids' \<Rightarrow> map_option ((@) ids') (keep_truthy rs))
     = map_option ((@) ids) (keep_truthy (r # rs))"
  by (cases "keep_truthy rs") (simp_all add: append_if_truthy_def split: option.splits)

lemma rest_list_loop_spec:
  "rest_list_loop items ids =
     map_option ((@) ids) (Option.bind (those (map spec_nested_identifier items)) keep_truthy)"
proof (induction items arbitrary: ids)
  case Nil
  show ?case by simp
next
  case (Cons item items)
  show ?case
  proof (cases "spec_nested_identifier item")
    case None
    then show ?thesis by (simp add: requested_object_id_spec)
  next
    case (Some r)
    show ?thesis
    proof (cases "those (map spec_nested_identifier items)")
      case None
      with Some show ?thesis
        by (simp add: requested_object_id_spec Cons.IH split: option.splits)
    next
      case rs: (Some rs)
      have "rest_list_loop (item # items) ids =
              (case append_if_truthy r ids of
                 None \<Rightarrow> None
               | Some ids' \<Rightarrow> map_option ((@) ids') (keep_truthy rs))"
        using Some rs by (simp add: requested_object_id_spec Cons.IH split: option.splits)
      also have "\<dots> = map_option ((@) ids) (keep_truthy (r # rs))"
        by (rule append_if_truthy_keep)
      also have "keep_truthy (r # rs) =
                   Option.bind (those (map spec_nested_identifier (item # items))) keep_truthy"
        using Some rs by (simp del: keep_truthy.simps)
      finally show ?thesis .
    qed
  qed
qed

lemma rest_value_loop_spec:
  "rest_value_loop items ids =
     map_option ((@) ids) (Option.bind (those (map spec_value_item_identifier items)) keep_truthy)"
proof (induction items arbitrary: ids)
  case Nil
  show ?case by simp
next
  case (Cons item items)
  show ?case
  proof (cases "spec_value_item_identifier item")
    case None
    then show ?thesis by (simp add: rest_value_item_id_spec)
  next
    case (Some r)
    show ?thesis
    proof (cases "those (map spec_value_item_identifier items)")
      case None
      with Some show ?thesis
        by (simp add: rest_value_item_id_spec Cons.IH split: option.splits)
    next
      case rs: (Some rs)
      have "rest_value_loop (item # items) ids =
              (case append_if_truthy r ids of
                 None \<Rightarrow> None
               | Some ids' \<Rightarrow> map_option ((@) ids') (keep_truthy rs))"
        using Some rs by (simp add: rest_value_item_id_spec Cons.IH split: option.splits)
      also have "\<dots> = map_option ((@) ids) (keep_truthy (r # rs))"
        by (rule append_if_truthy_keep)
      also have "keep_truthy (r # rs) =
                   Option.bind (those (map spec_value_item_identifier (item # items))) keep_truthy"
        using Some rs by (simp del: keep_truthy.simps)
      finally show ?thesis .
    qed
  qed
qed

lemma contentapi_loop_spec:
  "contentapi_loop sel items ids =
     map_option ((@) ids) (keep_not_none (map (spec_fallback_item_identifier sel) items))"
proof (induction items arbitrary: ids)
  case Nil
  show ?case by simp
next
  case (Cons item items)
  show ?case
    by (cases "keep_not_none (map (spec_fallback_item_identifier sel) items)")
       (simp_all add: contentapi_item_id_spec Cons.IH split: option.splits)
qed

lemma map_option_append_Nil: "map_option ((@) []) x = x"
  by (cases x) simp_all

lemma rest_parse_spec: "rest_parse data = spec_rest_parse data"
proof (cases data)
  case (JList items)
  then show ?thesis
    using rest_list_loop_spec [of items "[]"]
    by (simp add: rest_parse_def spec_rest_parse_def map_option_append_Nil)
next
  case (JDict d)
  have single: "(case requested_object_id data of None \<Rightarrow> None | Some rid \<Rightarrow> append_if_truthy rid [])
                  = Option.bind (spec_nested_identifier data) (\<lambda>r. keep_truthy [r])"
    by (cases "spec_nested_identifier data")
       (simp_all add: requested_object_id_spec append_if_truthy_def split: option.splits)
  show ?thesis
  proof (cases "map_of d ''value''")
    case None
    with JDict single show ?thesis by (simp add: rest_parse_def spec_rest_parse_def)
  next
    case (Some v)
    with JDict single rest_value_loop_spec [of _ "[]"] show ?thesis
      by (cases v) (simp_all add: rest_parse_def spec_rest_parse_def map_option_append_Nil)
  qed
qed (simp_all add: rest_parse_def spec_rest_parse_def)

lemma contentapi_parse_spec: "contentapi_parse sel data = spec_contentapi_parse sel data"
proof (cases data)
  case (JDict d)
  show ?thesis
  proof (cases "map_of d ''value''")
    case None
    with JDict show ?thesis
      by (simp add: contentapi_parse_def spec_contentapi_parse_def dict_get_def)
  next
    case (Some v)
    with JDict contentapi_loop_spec [of sel _ "[]"] show ?thesis
      by (cases v)
         (simp_all add: contentapi_parse_def spec_contentapi_parse_def dict_get_def
            map_option_append_Nil)
  qed
qed (simp_all add: contentapi_parse_def spec_contentapi_parse_def dict_get_def)

lemma keep_truthy_ints: "keep_truthy (map JInt ns) = Some (filter (\<lambda>n. n \<noteq> 0) ns)"
  by (induction ns) simp_all

lemma keep_not_none_ints: "keep_not_none (map JInt ns) = Some ns"
  by (induction ns) simp_all

text \<open>
  C10. Both parsers are the normalisation described above. In each of its three response
  shapes the REST search reads the identifiers off the items and keeps only the truthy
  ones, so the number 0, None and the empty string are left out, and a lookup whose only
  match has id 0 returns absent. The Content API query reads the identifier under the
  select field, or else under the first id-like key, and keeps every one that is not
  None, so it keeps 0, and the same lookup through the fallback returns 0.
\<close>

theorem record_id_zero_asymmetry:
  assumes "resolve_field_id_by_display_name w a app fdn = (Inr fid, a1)"
    and "coerce_module_id w (application_level_id a1) = Inr m"
    and "get_value_or_value_id w a1 fdn fid fv = Inr tok"
    and "h1 = probe_call a1 m # hist"
  shows "(\<forall>data. rest_parse data = spec_rest_parse data)
       \<and> (\<forall>sel data. contentapi_parse sel data = spec_contentapi_parse sel data)
       \<and> (\<forall>r rs. \<not> truthy r \<longrightarrow> keep_truthy (r # rs) = keep_truthy rs)
       \<and> \<not> truthy (JInt 0) \<and> \<not> truthy JNull \<and> \<not> truthy (JStr [])
       \<and> (\<forall>ns. keep_truthy (map JInt ns) = Some (filter (\<lambda>n. n \<noteq> 0) ns))
       \<and> (\<forall>ns. keep_not_none (map JInt ns) = Some ns)
       \<and> (\<forall>sc data.
             fst (supports_rest_search w a1 m hist)
             \<and> respond w h1 (search_call a1 m fid tok 2) = Response sc (Some data)
             \<and> sc < 400
           \<longrightarrow> fst (get_record_id_by_field w app fdn fv (a, hist))
                 = classify (case spec_rest_parse data of None \<Rightarrow> [] | Some ids \<Rightarrow> ids))
       \<and> (\<forall>sc data endpoint.
             \<not> fst (supports_rest_search w a1 m hist)
             \<and> endpoint = fst (get_grc_endpoint_url w a1 app h1) \<and> truthy endpoint
             \<and> respond w (directory_call a1 # h1)
                   (query_call a1 (py_str (repr w) endpoint) fdn fv) = Response sc (Some data)
             \<and> sc < 400
           \<longrightarrow> fst (get_record_id_by_field w app fdn fv (a, hist))
                 = classify (case spec_contentapi_parse
                                   (select_field (py_str (repr w) endpoint)) data of
                               None \<Rightarrow> [] | Some ids \<Rightarrow> ids))"
proof -
  have primary: "fst (get_record_id_by_field w app fdn fv (a, hist))
                 = classify (case spec_rest_parse data of None \<Rightarrow> [] | Some ids \<Rightarrow> ids)"
    if p: "fst (supports_rest_search w a1 m hist)"
      and r: "respond w h1 (search_call a1 m fid tok 2) = Response sc (Some data)"
      and s: "sc < 400"
    for sc data
    using lookup_primary [OF assms(1-3) p] rest_search_ok [OF r s] assms(4)
    by (simp add: rest_parse_spec)
  have fallback: "fst (get_record_id_by_field w app fdn fv (a, hist))
                 = classify (case spec_contentapi_parse
                                   (select_field (py_str (repr w) endpoint)) data of
                               None \<Rightarrow> [] | Some ids \<Rightarrow> ids)"
    if p: "\<not> fst (supports_rest_search w a1 m hist)"
      and e: "endpoint = fst (get_grc_endpoint_url w a1 app h1)"
      and t: "truthy endpoint"
      and r: "respond w (directory_call a1 # h1)
                   (query_call a1 (py_str (repr w) endpoint) fdn fv) = Response sc (Some data)"
      and s: "sc < 400"
    for sc data endpoint
    using lookup_fallback [OF assms(1-3) p] contentapi_search_ok [OF r s] e t assms(4)
    by (simp add: contentapi_parse_spec)
  from primary fallback show ?thesis
    by (simp add: rest_parse_spec contentapi_parse_spec keep_truthy_ints keep_not_none_ints)
qed

theorem record_id_zero_asymmetry_witness:
  "rest_parse (JList [nested_id 0]) = Some []
   \<and> rest_parse (JDict [(''value'', JList [nested_id 0, JDict [(''Record_ID'', JInt 0)]])]) = Some []
   \<and> rest_parse (nested_id 0) = Some []
   \<and> rest_parse (JList [JDict [(''RequestedObject'', JDict [(''Id'', JNull)])],
                         JDict [(''RequestedObject'', JDict [(''Id'', JStr [])])]]) = Some []
   \<and> contentapi_parse ''Endpoint_Id''
        (JDict [(''value'', JList [JDict [(''Endpoint_Id'', JInt 0)], JDict [(''ID'', JInt 0)]])])
       = Some [0, 0]
   \<and> fst (get_record_id_by_field
          (mock_world no_values [ok_response (JDict []), ok_response (JList [nested_id 0])])
          ''App'' ''Ticket Number'' ''ZERO'' (fake_archer ticket_fields, []))
     = Inr None
   \<and> fst (get_record_id_by_field
          (mock_world no_values [ok_response (JDict []),
             ok_response (JDict [(''value'', JList [JDict [(''Record_ID'', JInt 0)]])])])
          ''App'' ''Ticket Number'' ''ZERO'' (fake_archer ticket_fields, []))
     = Inr None
   \<and> fst (get_record_id_by_field
          (mock_world no_values [Response 404 None, directory_response ''App'' ''Endpoint'',
                                 query_response ''Endpoint_Id'' 0])
          ''App'' ''Ticket Number'' ''ZERO'' (fake_archer ticket_fields, []))
     = Inr (Some 0)"
proof -
  let ?a = "fake_archer ticket_fields"
  let ?w = "mock_world no_values [ok_response (JDict []), ok_response (JList [nested_id 0])]"
  let ?u = "mock_world no_values [ok_response (JDict []),
             ok_response (JDict [(''value'', JList [JDict [(''Record_ID'', JInt 0)]])])]"
  let ?v = "mock_world no_values [Response 404 None, directory_response ''App'' ''Endpoint'',
                                 query_response ''Endpoint_Id'' 0]"
  let ?e = "fst (get_grc_endpoint_url ?v ?a ''App'' [probe_call ?a 100])"
  have lt: "(200::int) < 400"
    by simp
  have rw: "resolve_field_id_by_display_name ?w ?a ''App'' ''Ticket Number'' = (Inr (JInt 10), ?a)"
    and ru: "resolve_field_id_by_display_name ?u ?a ''App'' ''Ticket Number'' = (Inr (JInt 10), ?a)"
    and rv: "resolve_field_id_by_display_name ?v ?a ''App'' ''Ticket Number'' = (Inr (JInt 10), ?a)"
    by code_simp+
  have mw: "coerce_module_id ?w (application_level_id ?a) = Inr 100"
    and mu: "coerce_module_id ?u (application_level_id ?a) = Inr 100"
    and mv: "coerce_module_id ?v (application_level_id ?a) = Inr 100"
    by code_simp+
  have tw: "get_value_or_value_id ?w ?a ''Ticket Number'' (JInt 10) ''ZERO'' = Inr (JStr ''ZERO'')"
    and tu: "get_value_or_value_id ?u ?a ''Ticket Number'' (JInt 10) ''ZERO'' = Inr (JStr ''ZERO'')"
    and tv: "get_value_or_value_id ?v ?a ''Ticket Number'' (JInt 10) ''ZERO'' = Inr (JStr ''ZERO'')"
    by code_simp+
  note W = record_id_zero_asymmetry [OF rw mw tw refl, of "[]"]
  note U = record_id_zero_asymmetry [OF ru mu tu refl, of "[]"]
  note V = record_id_zero_asymmetry [OF rv mv tv refl, of "[]"]
  from W have rp: "\<forall>data. rest_parse data = spec_rest_parse data"
    by (elim conjE)
  from W have cp: "\<forall>sel data. contentapi_parse sel data = spec_contentapi_parse sel data"
    by (elim conjE)
  have s1: "spec_rest_parse (JList [nested_id 0]) = Some []"
    and s2: "spec_rest_parse (JDict [(''value'',
               JList [nested_id 0, JDict [(''Record_ID'', JInt 0)]])]) = Some []"
    and s3: "spec_rest_parse (nested_id 0) = Some []"
    and s4: "spec_rest_parse (JList [JDict [(''RequestedObject'', JDict [(''Id'', JNull)])],
               JDict [(''RequestedObject'', JDict [(''Id'', JStr [])])]]) = Some []"
    and s5: "spec_contentapi_parse ''Endpoint_Id''
               (JDict [(''value'', JList [JDict [(''Endpoint_Id'', JInt 0)],
                                          JDict [(''ID'', JInt 0)]])]) = Some [0, 0]"
    and s6: "spec_rest_parse (JDict [(''value'', JList [JDict [(''Record_ID'', JInt 0)]])]) = Some []"
    by code_simp+
  have pw: "fst (supports_rest_search ?w ?a 100 [])"
    and pu: "fst (supports_rest_search ?u ?a 100 [])"
    and pv: "\<not> fst (supports_rest_search ?v ?a 100 [])"
    by code_simp+
  have qw: "respond ?w [probe_call ?a 100] (search_call ?a 100 (JInt 10) (JStr ''ZERO'') 2)
             = Response 200 (Some (JList [nested_id 0]))"
    by (simp add: mock_world_def ok_response_def)
  have qu: "respond ?u [probe_call ?a 100] (search_call ?a 100 (JInt 10) (JStr ''ZERO'') 2)
             = Response 200 (Some (JDict [(''value'', JList [JDict [(''Record_ID'', JInt 0)]])]))"
    by (simp add: mock_world_def ok_response_def)
  have ev: "?e = JStr ''Endpoint''"
    by code_simp
  have te: "truthy ?e"
    by (simp add: ev)
  have qv: "respond ?v [directory_call ?a, probe_call ?a 100]
              (query_call ?a (py_str (repr ?v) ?e) ''Ticket Number'' ''ZERO'')
             = Response 200 (Some (JDict [(''value'', JList [JDict [(''Endpoint_Id'', JInt 0)]])]))"
    by (simp add: mock_world_def ok_response_def query_response_def)
  have sv: "spec_contentapi_parse (select_field (py_str (repr ?v) ?e))
              (JDict [(''value'', JList [JDict [(''Endpoint_Id'', JInt 0)]])]) = Some [0]"
    unfolding ev by code_simp
  from W have "\<forall>sc data.
             fst (supports_rest_search ?w ?a 100 [])
             \<and> respond ?w [probe_call ?a 100] (search_call ?a 100 (JInt 10) (JStr ''ZERO'') 2)
                 = Response sc (Some data)
             \<and> sc < 400
           \<longrightarrow> fst (get_record_id_by_field ?w ''App'' ''Ticket Number'' ''ZERO'' (?a, []))
                 = classify (case spec_rest_parse data of None \<Rightarrow> [] | Some ids \<Rightarrow> ids)"
    by (elim conjE)
  with pw qw lt
  have lw: "fst (get_record_id_by_field ?w ''App'' ''Ticket Number'' ''ZERO'' (?a, []))
              = classify (case spec_rest_parse (JList [nested_id 0]) of
                            None \<Rightarrow> [] | Some ids \<Rightarrow> ids)"
    by blast
  from U have "\<forall>sc data.
             fst (supports_rest_search ?u ?a 100 [])
             \<and> respond ?u [probe_call ?a 100] (search_call ?a 100 (JInt 10) (JStr ''ZERO'') 2)
                 = Response sc (Some data)
             \<and> sc < 400
           \<longrightarrow> fst (get_record_id_by_field ?u ''App'' ''Ticket Number'' ''ZERO'' (?a, []))
                 = classify (case spec_rest_parse data of None \<Rightarrow> [] | Some ids \<Rightarrow> ids)"
    by (elim conjE)
  with pu qu lt
  have lu: "fst (get_record_id_by_field ?u ''App'' ''Ticket Number'' ''ZERO'' (?a, []))
              = classify (case spec_rest_parse
                                 (JDict [(''value'', JList [JDict [(''Record_ID'', JInt 0)]])]) of
                            None \<Rightarrow> [] | Some ids \<Rightarrow> ids)"
    by blast
  from V have "\<forall>sc data endpoint.
             \<not> fst (supports_rest_search ?v ?a 100 [])
             \<and> endpoint = ?e \<and> truthy endpoint
             \<and> respond ?v (directory_call ?a # [probe_call ?a 100])
                   (query_call ?a (py_str (repr ?v) endpoint) ''Ticket Number'' ''ZERO'')
                 = Response sc (Some data)
             \<and> sc < 400
           \<longrightarrow> fst (get_record_id_by_field ?v ''App'' ''Ticket Number'' ''ZERO'' (?a, []))
                 = classify (case spec_contentapi_parse
                                   (select_field (py_str (repr ?v) endpoint)) data of
                               None \<Rightarrow> [] | Some ids \<Rightarrow> ids)"
    by (elim conjE)
  with pv te qv lt
  have lv: "fst (get_record_id_by_field ?v ''App'' ''Ticket Number'' ''ZERO'' (?a, []))
              = classify (case spec_contentapi_parse (select_field (py_str (repr ?v) ?e))
                                 (JDict [(''value'', JList [JDict [(''Endpoint_Id'', JInt 0)]])]) of
                            None \<Rightarrow> [] | Some ids \<Rightarrow> ids)"
    by blast
  from rp cp s1 s2 s3 s4 s5 s6 lw lu lv sv show ?thesis
    by (simp add: classify_def)
qed

subsection \<open>The bulk loop as a fold over the outcomes\<close>

lemma map_of_dict_set: "map_of (dict_set kvs k v) = (map_of kvs)(k \<mapsto> v)"
  by (induction kvs) (auto simp add: fun_eq_iff)

lemma keys_dict_set: "fst ` set (dict_set kvs k v) = insert k (fst ` set kvs)"
proof (induction kvs)
  case Nil
  show ?case by simp
next
  case (Cons kv kvs)
  obtain k' v' where kv: "kv = (k', v')" by (cases kv)
  show ?case
  proof (cases "k' = k")
    case True
    then show ?thesis by (simp add: kv)
  next
    case False
    then show ?thesis by (simp add: kv Cons.IH insert_commute)
  qed
qed

lemma distinct_dict_set: "distinct (map fst kvs) \<Longrightarrow> distinct (map fst (dict_set kvs k v))"
  by (induction kvs) (auto simp add: keys_dict_set)

lemma dict_set_not_empty: "dict_set kvs k v \<noteq> []"
  by (cases kvs) (auto split: if_splits)

lemma fst_record_outcome: "fst (record_outcome v r acc) = dict_set (fst acc) v (stored_id r)"
  by (simp add: record_outcome_def stored_id_def split: sum.splits exn.splits)

lemma snd_record_outcome:
  "snd (record_outcome v r acc) =
     (if is_ambiguous r then dict_set (snd acc) v (ambiguous_ids r) else snd acc)"
  by (simp add: record_outcome_def is_ambiguous_def ambiguous_ids_def split: sum.splits exn.splits)

lemma record_outcomes_Nil: "record_outcomes acc [] = acc"
  by (simp add: record_outcomes_def)

lemma record_outcomes_Cons:
  "record_outcomes acc ((v, r) # outs) = record_outcomes (record_outcome v r acc) outs"
  by (simp add: record_outcomes_def)

lemma bulk_loop_outcomes:
  "bulk_loop w app fdn vs acc s =
     (record_outcomes acc (lookup_outcomes w app fdn vs s), lookup_final_state w app fdn vs s)"
proof (induction vs arbitrary: acc s)
  case Nil
  show ?case by (simp add: record_outcomes_Nil)
next
  case (Cons v vs)
  then show ?case by (simp add: case_prod_beta record_outcomes_Cons)
qed

lemma outcomes_values: "map fst (lookup_outcomes w app fdn vs s) = vs"
  by (induction vs arbitrary: s) simp_all

lemma results_keys:
  "fst ` set (fst (record_outcomes acc outs)) = fst ` set (fst acc) \<union> fst ` set outs"
proof (induction outs arbitrary: acc)
  case Nil
  show ?case by (simp add: record_outcomes_Nil)
next
  case (Cons vr outs)
  obtain v r where vr: "vr = (v, r)" by (cases vr)
  show ?case
    by (simp add: vr record_outcomes_Cons Cons.IH fst_record_outcome keys_dict_set)
qed

lemma results_distinct:
  "distinct (map fst (fst acc)) \<Longrightarrow> distinct (map fst (fst (record_outcomes acc outs)))"
proof (induction outs arbitrary: acc)
  case Nil
  then show ?case by (simp add: record_outcomes_Nil)
next
  case (Cons vr outs)
  obtain v r where vr: "vr = (v, r)" by (cases vr)
  from Cons.prems have "distinct (map fst (fst (record_outcome v r acc)))"
    by (simp add: fst_record_outcome distinct_dict_set)
  from Cons.IH [OF this] show ?case by (simp add: vr record_outcomes_Cons)
qed

lemma results_map_of:
  "map_of (fst (record_outcomes acc outs)) k =
     (case map_of (rev outs) k of Some r \<Rightarrow> Some (stored_id r) | None \<Rightarrow> map_of (fst acc) k)"
proof (induction outs arbitrary: acc)
  case Nil
  show ?case by (simp add: record_outcomes_Nil)
next
  case (Cons vr outs)
  obtain v r where vr: "vr = (v, r)" by (cases vr)
  show ?case
    by (simp add: vr record_outcomes_Cons Cons.IH fst_record_outcome map_of_dict_set
        map_add_def split: option.splits)
qed

lemma ambiguities_keys:
  "fst ` set (snd (record_outcomes acc outs)) =
     fst ` set (snd acc) \<union> {v. \<exists>r. (v, r) \<in> set outs \<and> is_ambiguous r}"
proof (induction outs arbitrary: acc)
  case Nil
  show ?case by (simp add: record_outcomes_Nil)
next
  case (Cons vr outs)
  obtain v r where vr: "vr = (v, r)" by (cases vr)
  show ?case
    by (auto simp add: vr record_outcomes_Cons Cons.IH snd_record_outcome keys_dict_set)
qed

lemma ambiguities_distinct:
  "distinct (map fst (snd acc)) \<Longrightarrow> distinct (map fst (snd (record_outcomes acc outs)))"
proof (induction outs arbitrary: acc)
  case Nil
  then show ?case by (simp add: record_outcomes_Nil)
next
  case (Cons vr outs)
  obtain v r where vr: "vr = (v, r)" by (cases vr)
  from Cons.prems have "distinct (map fst (snd (record_outcome v r acc)))"
    by (simp add: snd_record_outcome distinct_dict_set)
  from Cons.IH [OF this] show ?case by (simp add: vr record_outcomes_Cons)
qed

lemma ambiguities_map_of:
  "map_of (snd (record_outcomes acc outs)) k =
     (case map_of (rev (filter (\<lambda>vr. is_ambiguous (snd vr)) outs)) k of
        Some r \<Rightarrow> Some (ambiguous_ids r)
      | None \<Rightarrow> map_of (snd acc) k)"
proof (induction outs arbitrary: acc)
  case Nil
  show ?case by (simp add: record_outcomes_Nil)
next
  case (Cons vr outs)
  obtain v r where vr: "vr = (v, r)" by (cases vr)
  show ?case
    by (simp add: vr record_outcomes_Cons Cons.IH snd_record_outcome map_of_dict_set
        map_add_def split: option.splits)
qed

lemma ambiguities_empty:
  "(snd (record_outcomes acc outs) = []) =
     (snd acc = [] \<and> (\<forall>v r. (v, r) \<in> set outs \<longrightarrow> \<not> is_ambiguous r))"
proof -
  have "(snd (record_outcomes acc outs) = []) = (fst ` set (snd (record_outcomes acc outs)) = {})"
    by simp
  also have "\<dots> = (snd acc = [] \<and> (\<forall>v r. (v, r) \<in> set outs \<longrightarrow> \<not> is_ambiguous r))"
    unfolding ambiguities_keys by auto
  finally show ?thesis .
qed

lemma bulk_unfold:
  "get_record_ids_by_field_bulk w app fdn vals s =
     (if snd (record_outcomes ([], []) (lookup_outcomes w app fdn vals s)) \<noteq> []
      then Inl (AmbiguousMatch (DDict (snd (record_outcomes ([], []) (lookup_outcomes w app fdn vals s)))))
      else Inr (fst (record_outcomes ([], []) (lookup_outcomes w app fdn vals s))),
      lookup_final_state w app fdn vals s)"
  by (simp add: get_record_ids_by_field_bulk_def bulk_loop_outcomes case_prod_beta)

lemma last_outcome_distinct:
  assumes "distinct vals" and "(v, r) \<in> set (lookup_outcomes w app fdn vals s)"
  shows "map_of (rev (lookup_outcomes w app fdn vals s)) v = Some r"
proof -
  have "distinct (map fst (rev (lookup_outcomes w app fdn vals s)))"
    using assms(1) by (simp add: rev_map [symmetric] outcomes_values)
  with assms(2) show ?thesis by simp
qed

subsection \<open>The mapping a bulk lookup returns\<close>

text \<open>
  C9, as the code has it. When the bulk lookup returns a mapping, every input value is a
  key of it exactly once, and no lookup was ambiguous. The value stored under a key is
  what the last single-value lookup for it gave: its id, and None when that lookup
  returned absent or raised any exception. When no value is repeated in the input, it is
  what the one lookup for it gave.
\<close>

theorem bulk_result_mapping:
  assumes "fst (get_record_ids_by_field_bulk w app fdn vals s) = Inr results"
  shows "distinct (map fst results)
       \<and> set (map fst results) = set vals
       \<and> (\<forall>v. map_of results v =
               map_option stored_id (map_of (rev (lookup_outcomes w app fdn vals s)) v))
       \<and> (\<forall>v r. map_of (rev (lookup_outcomes w app fdn vals s)) v = Some r
                 \<and> (r = Inr None \<or> (\<exists>e. r = Inl e))
               \<longrightarrow> map_of results v = Some None)
       \<and> (distinct vals \<longrightarrow>
            (\<forall>v r. (v, r) \<in> set (lookup_outcomes w app fdn vals s)
               \<longrightarrow> map_of results v = Some (stored_id r)))
       \<and> (\<forall>v r. (v, r) \<in> set (lookup_outcomes w app fdn vals s) \<longrightarrow> \<not> is_ambiguous r)"
proof -
  let ?outs = "lookup_outcomes w app fdn vals s"
  from assms have none: "snd (record_outcomes ([], []) ?outs) = []"
    and res: "results = fst (record_outcomes ([], []) ?outs)"
    by (auto simp add: bulk_unfold split: if_splits)
  have d: "distinct (map fst results)"
    unfolding res by (rule results_distinct) simp
  have k: "set (map fst results) = set vals"
  proof -
    have "set (map fst results) = fst ` set (fst (record_outcomes ([], []) ?outs))"
      by (simp add: res)
    also have "\<dots> = fst ` set ?outs"
      by (simp add: results_keys)
    also have "\<dots> = set (map fst ?outs)"
      by simp
    also have "\<dots> = set vals"
      by (simp only: outcomes_values)
    finally show ?thesis .
  qed
  have m: "\<forall>v. map_of results v = map_option stored_id (map_of (rev ?outs) v)"
    by (simp add: res results_map_of split: option.splits)
  have f: "\<forall>v r. map_of (rev ?outs) v = Some r \<and> (r = Inr None \<or> (\<exists>e. r = Inl e))
               \<longrightarrow> map_of results v = Some None"
    using m by (auto simp add: stored_id_def)
  have u: "distinct vals \<longrightarrow>
            (\<forall>v r. (v, r) \<in> set ?outs \<longrightarrow> map_of results v = Some (stored_id r))"
    using m last_outcome_distinct [of vals _ _ w app fdn s] by simp
  have a: "\<forall>v r. (v, r) \<in> set ?outs \<longrightarrow> \<not> is_ambiguous r"
    using none by (simp add: ambiguities_empty)
  from d k m f u a show ?thesis by blast
qed

theorem bulk_result_mapping_witness:
  "fst (get_record_ids_by_field_bulk
          (mock_world no_values [ok_response (JDict []), ok_response (JList [nested_id 5]),
                                 ok_response (JDict []), Response 500 None])
          ''App'' ''Ticket Number'' [''a'', ''b''] (fake_archer ticket_fields, []))
     = Inr [(''a'', Some 5), (''b'', None)]
   \<and> distinct (map fst [(''a'', Some (5::int)), (''b'', None)])
   \<and> set (map fst [(''a'', Some (5::int)), (''b'', None)]) = set [''a'', ''b'']"
proof -
  let ?w = "mock_world no_values [ok_response (JDict []), ok_response (JList [nested_id 5]),
                                 ok_response (JDict []), Response 500 None]"
  have h: "fst (get_record_ids_by_field_bulk ?w ''App'' ''Ticket Number'' [''a'', ''b'']
                  (fake_archer ticket_fields, []))
             = Inr [(''a'', Some 5), (''b'', None)]"
    by code_simp
  from bulk_result_mapping [OF h] h show ?thesis by blast
qed

text \<open>
  The specification has None under a value whenever a lookup for it failed, for every
  input list. Here ``a'' is looked up twice: the first search is answered with status 500
  and gives absent, the second finds record 7, and the mapping has 7 under ``a''.
\<close>

theorem bulk_repeated_value_counterexample:
  "lookup_outcomes
      (mock_world no_values [ok_response (JDict []), Response 500 None,
                             ok_response (JDict []), ok_response (JList [nested_id 7])])
      ''App'' ''Ticket Number'' [''a'', ''a''] (fake_archer ticket_fields, [])
     = [(''a'', Inr None), (''a'', Inr (Some 7))]
   \<and> fst (get_record_ids_by_field_bulk
      (mock_world no_values [ok_response (JDict []), Response 500 None,
                             ok_response (JDict []), ok_response (JList [nested_id 7])])
      ''App'' ''Ticket Number'' [''a'', ''a''] (fake_archer ticket_fields, []))
     = Inr [(''a'', Some 7)]"
  by code_simp

subsection \<open>The exception a bulk lookup raises\<close>

text \<open>
  C1, as the code has it. When some single-value lookup of a bulk lookup is ambiguous, the
  bulk lookup still makes the lookups of all input values, and then raises the ambiguous
  match. Its details are the ambiguity map alone: the keys are exactly the values with an
  ambiguous lookup, each with the ids of its (last) ambiguous lookup. The ids resolved for
  the other values are not part of it.
\<close>

theorem bulk_ambiguity_raised_at_end:
  assumes "(v, r) \<in> set (lookup_outcomes w app fdn vals s)" and "is_ambiguous r"
  shows "\<exists>amb. get_record_ids_by_field_bulk w app fdn vals s =
                 (Inl (AmbiguousMatch (DDict amb)), lookup_final_state w app fdn vals s)
            \<and> map fst (lookup_outcomes w app fdn vals s) = vals
            \<and> distinct (map fst amb)
            \<and> set (map fst amb) =
                {k. \<exists>r. (k, r) \<in> set (lookup_outcomes w app fdn vals s) \<and> is_ambiguous r}
            \<and> (\<forall>k. map_of amb k =
                  map_option ambiguous_ids
                    (map_of (rev (filter (\<lambda>vr. is_ambiguous (snd vr))
                                    (lookup_outcomes w app fdn vals s))) k))"
proof -
  let ?outs = "lookup_outcomes w app fdn vals s"
  let ?amb = "snd (record_outcomes ([], []) ?outs)"
  from assms have ne: "?amb \<noteq> []"
    by (auto simp add: ambiguities_empty)
  then have b: "get_record_ids_by_field_bulk w app fdn vals s =
                 (Inl (AmbiguousMatch (DDict ?amb)), lookup_final_state w app fdn vals s)"
    by (simp add: bulk_unfold)
  have d: "distinct (map fst ?amb)"
    by (rule ambiguities_distinct) simp
  have k: "set (map fst ?amb) = {k. \<exists>r. (k, r) \<in> set ?outs \<and> is_ambiguous r}"
    using ambiguities_keys [of "([], [])" ?outs] by simp
  have m: "\<forall>k. map_of ?amb k =
                  map_option ambiguous_ids
                    (map_of (rev (filter (\<lambda>vr. is_ambiguous (snd vr)) ?outs)) k)"
    by (simp add: ambiguities_map_of split: option.splits)
  from b outcomes_values [of w app fdn vals s] d k m show ?thesis by blast
qed

theorem bulk_ambiguity_raised_at_end_witness:
  "\<exists>amb. get_record_ids_by_field_bulk
            (mock_world no_values [ok_response (JDict []), ok_response (JList [nested_id 5]),
               ok_response (JDict []), ok_response (JList [nested_id 1, nested_id 2])])
            ''App'' ''Ticket Number'' [''a'', ''b''] (fake_archer ticket_fields, [])
          = (Inl (AmbiguousMatch (DDict amb)),
             lookup_final_state
               (mock_world no_values [ok_response (JDict []), ok_response (JList [nested_id 5]),
                  ok_response (JDict []), ok_response (JList [nested_id 1, nested_id 2])])
               ''App'' ''Ticket Number'' [''a'', ''b''] (fake_archer ticket_fields, []))
        \<and> distinct (map fst amb)"
proof -
  let ?w = "mock_world no_values [ok_response (JDict []), ok_response (JList [nested_id 5]),
               ok_response (JDict []), ok_response (JList [nested_id 1, nested_id 2])]"
  have o: "(''b'', Inl (AmbiguousMatch (DList [1, 2])))
             \<in> set (lookup_outcomes ?w ''App'' ''Ticket Number'' [''a'', ''b'']
                      (fake_archer ticket_fields, []))"
    by code_simp
  have i: "is_ambiguous (Inl (AmbiguousMatch (DList [1, 2])))"
    by (simp add: is_ambiguous_def)
  from bulk_ambiguity_raised_at_end [OF o i] show ?thesis by blast
qed

text \<open>
  The specification has the exception show the resolved ids of the other values. Two servers that
  differ only in the record found for ``a'' (5 or 6) make the bulk lookup raise the very
  same exception, so the id found for ``a'' cannot be read off it.
\<close>

theorem bulk_exception_hides_results_counterexample:
  "fst (get_record_ids_by_field_bulk
          (mock_world no_values [ok_response (JDict []), ok_response (JList [nested_id 5]),
             ok_response (JDict []), ok_response (JList [nested_id 1, nested_id 2])])
          ''App'' ''Ticket Number'' [''a'', ''b''] (fake_archer ticket_fields, []))
     = Inl (AmbiguousMatch (DDict [(''b'', [1, 2])]))
   \<and> fst (get_record_ids_by_field_bulk
          (mock_world no_values [ok_response (JDict []), ok_response (JList [nested_id 6]),
             ok_response (JDict []), ok_response (JList [nested_id 1, nested_id 2])])
          ''App'' ''Ticket Number'' [''a'', ''b''] (fake_archer ticket_fields, []))
     = Inl (AmbiguousMatch (DDict [(''b'', [1, 2])]))
   \<and> fst (get_record_id_by_field
          (mock_world no_values [ok_response (JDict []), ok_response (JList [nested_id 5]),
             ok_response (JDict []), ok_response (JList [nested_id 1, nested_id 2])])
          ''App'' ''Ticket Number'' ''a'' (fake_archer ticket_fields, []))
     = Inr (Some 5)
   \<and> fst (get_record_id_by_field
          (mock_world no_values [ok_response (JDict []), ok_response (JList [nested_id 6]),
             ok_response (JDict []), ok_response (JList [nested_id 1, nested_id 2])])
          ''App'' ''Ticket Number'' ''a'' (fake_archer ticket_fields, []))
     = Inr (Some 6)"
  by code_simp

subsection \<open>Configuration errors\<close>

text \<open>
  C2, as the code has it. In the single-value lookup a configuration error reaches the
  caller as an exception: the field-not-found error when no key of the loaded metadata
  equals the display name ignoring case, the invalid-level-id error when neither the
  application level id nor its text converts to an integer. The bulk lookup catches every
  exception that is not an ambiguous match and goes on to the lookups of all input values:
  when it returns a mapping, a value whose last lookup raised is stored with None (when no
  value is repeated, every value whose lookup raised), and the only exception a bulk
  lookup raises is the aggregate ambiguous match.
\<close>

theorem configuration_errors:
  "(from_application w app a = Inr a'
      \<and> find_display_name (lower fdn) (application_fields_json a') = None
    \<longrightarrow> fst (get_record_id_by_field w app fdn fv (a, hist)) = Inl FieldNotFound)
   \<and> (resolve_field_id_by_display_name w a app fdn = (Inr fid, a1)
      \<and> py_int (application_level_id a1) = None
      \<and> py_int (JStr (py_str (repr w) (application_level_id a1))) = None
    \<longrightarrow> fst (get_record_id_by_field w app fdn fv (a, hist)) = Inl InvalidLevelId)
   \<and> ((\<exists>e. coerce_module_id w raw = Inl e)
        = (py_int raw = None \<and> py_int (JStr (py_str (repr w) raw)) = None))
   \<and> snd (get_record_ids_by_field_bulk w app fdn vals s) = lookup_final_state w app fdn vals s
   \<and> map fst (lookup_outcomes w app fdn vals s) = vals
   \<and> (\<forall>results v e.
         fst (get_record_ids_by_field_bulk w app fdn vals s) = Inr results
         \<and> map_of (rev (lookup_outcomes w app fdn vals s)) v = Some (Inl e)
       \<longrightarrow> map_of results v = Some None)
   \<and> (\<forall>results v e.
         fst (get_record_ids_by_field_bulk w app fdn vals s) = Inr results
         \<and> distinct vals \<and> (v, Inl e) \<in> set (lookup_outcomes w app fdn vals s)
       \<longrightarrow> map_of results v = Some None)
   \<and> (\<forall>e. fst (get_record_ids_by_field_bulk w app fdn vals s) = Inl e
       \<longrightarrow> (\<exists>amb. e = AmbiguousMatch (DDict amb)))"
proof -
  let ?outs = "lookup_outcomes w app fdn vals s"
  have nf: "fst (get_record_id_by_field w app fdn fv (a, hist)) = Inl FieldNotFound"
    if "from_application w app a = Inr a'"
      and "find_display_name (lower fdn) (application_fields_json a') = None"
  proof -
    from that have "fst (resolve_field_id_by_display_name w a app fdn) = Inl FieldNotFound"
      by (simp add: resolve_field_id_by_display_name_def)
    then show ?thesis by (rule lookup_resolve_error)
  qed
  have il: "fst (get_record_id_by_field w app fdn fv (a, hist)) = Inl InvalidLevelId"
    if r: "resolve_field_id_by_display_name w a app fdn = (Inr fid, a1)"
      and "py_int (application_level_id a1) = None"
      and "py_int (JStr (py_str (repr w) (application_level_id a1))) = None"
  proof -
    from that have "coerce_module_id w (application_level_id a1) = Inl InvalidLevelId"
      by (simp add: coerce_module_id_def)
    from lookup_module_id_error [OF r this] show ?thesis by simp
  qed
  have co: "(\<exists>e. coerce_module_id w raw = Inl e)
              = (py_int raw = None \<and> py_int (JStr (py_str (repr w) raw)) = None)"
    by (simp add: coerce_module_id_def split: option.splits)
  have fin: "snd (get_record_ids_by_field_bulk w app fdn vals s) = lookup_final_state w app fdn vals s"
    by (simp add: bulk_unfold)
  have last: "map_of results v = Some None"
    if b: "fst (get_record_ids_by_field_bulk w app fdn vals s) = Inr results"
      and l: "map_of (rev ?outs) v = Some (Inl e)"
    for results v e
  proof -
    from b have "results = fst (record_outcomes ([], []) ?outs)"
      by (auto simp add: bulk_unfold split: if_splits)
    with l show ?thesis by (simp add: results_map_of stored_id_def)
  qed
  have dist: "map_of results v = Some None"
    if b: "fst (get_record_ids_by_field_bulk w app fdn vals s) = Inr results"
      and d: "distinct vals" and o: "(v, Inl e) \<in> set ?outs"
    for results v e
    using last [OF b last_outcome_distinct [OF d o]] .
  have am: "\<exists>amb. e = AmbiguousMatch (DDict amb)"
    if "fst (get_record_ids_by_field_bulk w app fdn vals s) = Inl e" for e
    using that by (auto simp add: bulk_unfold split: if_splits)
  from nf il co fin outcomes_values [of w app fdn vals s] last dist am show ?thesis by blast
qed

theorem configuration_errors_witness:
  "fst (get_record_id_by_field (mock_world no_values []) ''App'' ''Nope'' ''x''
          (fake_archer ticket_fields, []))
     = Inl FieldNotFound
   \<and> fst (get_record_id_by_field (mock_world no_values []) ''App'' ''Ticket Number'' ''x''
          (fake_archer ticket_fields\<lparr>application_level_id := JNull\<rparr>, []))
     = Inl InvalidLevelId
   \<and> fst (get_record_id_by_field (mock_world no_values []) ''App'' ''Ticket Number'' ''x''
          (fake_archer ticket_fields\<lparr>application_level_id := JStr (CHR 0x1F # ''100'')\<rparr>, []))
     = Inl InvalidLevelId
   \<and> fst (get_record_ids_by_field_bulk (mock_world no_values []) ''App'' ''Nope'' [''x'', ''y'']
          (fake_archer ticket_fields, []))
     = Inr [(''x'', None), (''y'', None)]
   \<and> map_of [(''x'', None :: int option), (''y'', None)] ''x'' = Some None"
proof -
  let ?w = "mock_world no_values []"
  let ?a = "fake_archer ticket_fields"
  let ?b = "fake_archer ticket_fields\<lparr>application_level_id := JNull\<rparr>"
  let ?c = "fake_archer ticket_fields\<lparr>application_level_id := JStr (CHR 0x1F # ''100'')\<rparr>"
  have l: "from_application ?w ''App'' ?a = Inr ?a"
    by (simp add: mock_world_def)
  have n: "find_display_name (lower ''Nope'') (application_fields_json ?a) = None"
    by code_simp
  have rb: "resolve_field_id_by_display_name ?w ?b ''App'' ''Ticket Number'' = (Inr (JInt 10), ?b)"
    and rc: "resolve_field_id_by_display_name ?w ?c ''App'' ''Ticket Number'' = (Inr (JInt 10), ?c)"
    by code_simp+
  have ib: "py_int (application_level_id ?b) = None"
    and jb: "py_int (JStr (py_str (repr ?w) (application_level_id ?b))) = None"
    and ic: "py_int (application_level_id ?c) = None"
    and jc: "py_int (JStr (py_str (repr ?w) (application_level_id ?c))) = None"
    by code_simp+
  have nf: "fst (get_record_id_by_field ?w ''App'' ''Nope'' ''x'' (?a, [])) = Inl FieldNotFound"
    using configuration_errors [where w = ?w and app = "''App''" and a = ?a and a' = ?a
        and fdn = "''Nope''" and fv = "''x''" and hist = "[]"] l n by blast
  have ilb: "fst (get_record_id_by_field ?w ''App'' ''Ticket Number'' ''x'' (?b, []))
              = Inl InvalidLevelId"
    using configuration_errors [where w = ?w and app = "''App''" and a = ?b and ?a1.0 = ?b
        and fdn = "''Ticket Number''" and fv = "''x''" and hist = "[]" and fid = "JInt 10"]
      rb ib jb by blast
  have ilc: "fst (get_record_id_by_field ?w ''App'' ''Ticket Number'' ''x'' (?c, []))
              = Inl InvalidLevelId"
    using configuration_errors [where w = ?w and app = "''App''" and a = ?c and ?a1.0 = ?c
        and fdn = "''Ticket Number''" and fv = "''x''" and hist = "[]" and fid = "JInt 10"]
      rc ic jc by blast
  have b: "fst (get_record_ids_by_field_bulk ?w ''App'' ''Nope'' [''x'', ''y''] (?a, []))
             = Inr [(''x'', None), (''y'', None)]"
    by code_simp
  have o: "(''x'', Inl FieldNotFound)
             \<in> set (lookup_outcomes ?w ''App'' ''Nope'' [''x'', ''y''] (?a, []))"
    by code_simp
  have dv: "distinct [''x'', ''y'']"
    by simp
  have "map_of [(''x'', None :: int option), (''y'', None)] ''x'' = Some None"
    using configuration_errors [where w = ?w and app = "''App''" and fdn = "''Nope''"
        and vals = "[''x'', ''y'']" and s = "(?a, [])"] b dv o by blast
  with nf ilb ilc b show ?thesis by simp
qed

text \<open>
  The specification has configuration errors propagate from the bulk lookup too. With an unknown
  display name, and with the application level id ``abc'', the single-value lookup raises
  and the bulk lookup returns the value mapped to None.
\<close>

theorem bulk_swallows_configuration_error_counterexample:
  "fst (get_record_id_by_field (mock_world no_values []) ''App'' ''Nope'' ''x''
          (fake_archer ticket_fields, []))
     = Inl FieldNotFound
   \<and> fst (get_record_ids_by_field_bulk (mock_world no_values []) ''App'' ''Nope'' [''x'']
          (fake_archer ticket_fields, []))
     = Inr [(''x'', None)]
   \<and> fst (get_record_id_by_field (mock_world no_values []) ''App'' ''Ticket Number'' ''x''
          (fake_archer ticket_fields\<lparr>application_level_id := JStr ''abc''\<rparr>, []))
     = Inl InvalidLevelId
   \<and> fst (get_record_ids_by_field_bulk (mock_world no_values []) ''App'' ''Ticket Number'' [''x'']
          (fake_archer ticket_fields\<lparr>application_level_id := JStr ''abc''\<rparr>, []))
     = Inr [(''x'', None)]"
  by code_simp

subsection \<open>The search token\<close>

lemma is_values_list_declared:
  assumes "fields_get (application_fields_json a1) fid = Inr info"
  shows "is_values_list a1 fid = Inr (declares_values_list info)"
  using assms
  by (auto simp add: is_values_list_def declares_values_list_def split: option.splits json.splits)

text \<open>
  C7, as the code has it. A field is a values list exactly when its metadata entry
  declares Type 4. For a values-list field the token is the first id the values-list
  helper returns, and the fixed text \<open>__CLINE_VALUES_LIST_NO_MATCH__\<close> when it returns
  none; for any other field, also one without a metadata entry, it is the raw value. The token is the filter value of the REST search only: when the probe
  fails, the Content API query is built from the raw value and the token is not used, and
  what either search returns is the server's answer.
\<close>

theorem search_token:
  "fields_get (application_fields_json a1) (JInt n) = Inr (map_of (application_fields_json a1) (KInt n))
   \<and> (fields_get (application_fields_json a1) fid = Inr info
    \<longrightarrow> is_values_list a1 fid = Inr (declares_values_list info))
   \<and> (fields_get (application_fields_json a1) fid = Inr info \<and> declares_values_list info
      \<and> get_value_id_by_field_name_and_value w a1 fdn fv = Inr (x # xs)
    \<longrightarrow> get_value_or_value_id w a1 fdn fid fv = Inr x)
   \<and> (fields_get (application_fields_json a1) fid = Inr info \<and> declares_values_list info
      \<and> get_value_id_by_field_name_and_value w a1 fdn fv = Inr []
    \<longrightarrow> get_value_or_value_id w a1 fdn fid fv = Inr (JStr no_match_token))
   \<and> (fields_get (application_fields_json a1) fid = Inr info \<and> \<not> declares_values_list info
    \<longrightarrow> get_value_or_value_id w a1 fdn fid fv = Inr (JStr fv))
   \<and> (resolve_field_id_by_display_name w a app fdn = (Inr fid, a1)
      \<and> coerce_module_id w (application_level_id a1) = Inr m
      \<and> get_value_or_value_id w a1 fdn fid fv = Inr tok
      \<and> fst (supports_rest_search w a1 m hist)
    \<longrightarrow> get_record_id_by_field w app fdn fv (a, hist) =
          (classify (fst (rest_search_record_ids w a1 m fid tok 2 (probe_call a1 m # hist))),
           (a1, search_call a1 m fid tok 2 # probe_call a1 m # hist)))
   \<and> (\<forall>tok'. search_call a1 m fid tok 2 = search_call a1 m fid tok' 2 \<longrightarrow> tok = tok')
   \<and> (resolve_field_id_by_display_name w a app fdn = (Inr fid, a1)
      \<and> coerce_module_id w (application_level_id a1) = Inr m
      \<and> get_value_or_value_id w a1 fdn fid fv = Inr tok
      \<and> \<not> fst (supports_rest_search w a1 m hist)
      \<and> truthy (fst (get_grc_endpoint_url w a1 app (probe_call a1 m # hist)))
    \<longrightarrow> get_record_id_by_field w app fdn fv (a, hist) =
          (classify (fst (contentapi_search_record_ids w a1
                            (fst (get_grc_endpoint_url w a1 app (probe_call a1 m # hist)))
                            fdn fv (directory_call a1 # probe_call a1 m # hist))),
           (a1, query_call a1
                  (py_str (repr w) (fst (get_grc_endpoint_url w a1 app (probe_call a1 m # hist))))
                  fdn fv
                # directory_call a1 # probe_call a1 m # hist)))"
proof -
  have first: "get_value_or_value_id w a1 fdn fid fv = Inr x"
    if "fields_get (application_fields_json a1) fid = Inr info" and "declares_values_list info"
      and "get_value_id_by_field_name_and_value w a1 fdn fv = Inr (x # xs)"
    using that is_values_list_declared [OF that(1)] by (simp add: get_value_or_value_id_def)
  have sentinel: "get_value_or_value_id w a1 fdn fid fv = Inr (JStr no_match_token)"
    if "fields_get (application_fields_json a1) fid = Inr info" and "declares_values_list info"
      and "get_value_id_by_field_name_and_value w a1 fdn fv = Inr []"
    using that is_values_list_declared [OF that(1)] by (simp add: get_value_or_value_id_def)
  have raw: "get_value_or_value_id w a1 fdn fid fv = Inr (JStr fv)"
    if "fields_get (application_fields_json a1) fid = Inr info" and "\<not> declares_values_list info"
    using that is_values_list_declared [OF that(1)] by (simp add: get_value_or_value_id_def)
  have inj: "\<forall>tok'. search_call a1 m fid tok 2 = search_call a1 m fid tok' 2 \<longrightarrow> tok = tok'"
    by (simp add: search_call_def search_body_def)
  from is_values_list_declared [of a1 fid info] first sentinel raw inj
    lookup_primary [of w a app fdn fid a1 m fv tok hist]
    lookup_fallback [of w a app fdn fid a1 m fv tok hist, OF _ _ _ _ refl]
  show ?thesis by simp
qed

theorem search_token_witness:
  "get_value_or_value_id (mock_world open_values [ok_response (JDict []), ok_response (JList [nested_id 777])])
     (fake_archer status_fields) ''Status'' (JInt 20) ''Open'' = Inr (JInt 999)
   \<and> get_value_or_value_id (mock_world open_values [])
     (fake_archer ticket_fields) ''Ticket Number'' (JInt 10) ''Open'' = Inr (JStr ''Open'')
   \<and> get_record_id_by_field
        (mock_world open_values [ok_response (JDict []), ok_response (JList [nested_id 777])])
        ''App'' ''Status'' ''Open'' (fake_archer status_fields, [])
     = (Inr (Some 777),
        (fake_archer status_fields,
         [search_call (fake_archer status_fields) 100 (JInt 20) (JInt 999) 2,
          probe_call (fake_archer status_fields) 100]))"
proof -
  let ?w = "mock_world open_values [ok_response (JDict []), ok_response (JList [nested_id 777])]"
  let ?a = "fake_archer status_fields"
  let ?b = "fake_archer ticket_fields"
  let ?i = "Some (JDict [(''Type'', JInt 4), (''FieldId'', JInt 20)])"
  let ?j = "Some (JDict [(''Type'', JInt 1), (''FieldId'', JInt 10)])"
  note tk = search_token [where w = ?w and a = ?a and ?a1.0 = ?a and app = "''App''"
      and fdn = "''Status''" and fv = "''Open''" and fid = "JInt 20" and m = 100
      and tok = "JInt 999" and hist = "[]" and x = "JInt 999" and xs = "[]" and info = ?i]
  note tr = search_token [where w = "mock_world open_values []" and ?a1.0 = ?b
      and fdn = "''Ticket Number''" and fv = "''Open''" and fid = "JInt 10" and info = ?j]
  have f: "fields_get (application_fields_json ?a) (JInt 20) = Inr ?i"
    by (simp add: fake_archer_def status_fields_def)
  have d: "declares_values_list ?i"
    by (simp add: declares_values_list_def)
  have g: "get_value_id_by_field_name_and_value ?w ?a ''Status'' ''Open'' = Inr [JInt 999]"
    by (simp add: mock_world_def open_values_def)
  from tk f d g
  have t: "get_value_or_value_id ?w ?a ''Status'' (JInt 20) ''Open'' = Inr (JInt 999)"
    by blast
  have f': "fields_get (application_fields_json ?b) (JInt 10) = Inr ?j"
    by (simp add: fake_archer_def ticket_fields_def)
  have d': "\<not> declares_values_list ?j"
    by (simp add: declares_values_list_def)
  from tr f' d'
  have t': "get_value_or_value_id (mock_world open_values []) ?b ''Ticket Number'' (JInt 10) ''Open''
              = Inr (JStr ''Open'')"
    by blast
  have r: "resolve_field_id_by_display_name ?w ?a ''App'' ''Status'' = (Inr (JInt 20), ?a)"
    by code_simp
  have m: "coerce_module_id ?w (application_level_id ?a) = Inr 100"
    by code_simp
  have p: "fst (supports_rest_search ?w ?a 100 [])"
    by code_simp
  have c: "classify (fst (rest_search_record_ids ?w ?a 100 (JInt 20) (JInt 999) 2
                            [probe_call ?a 100])) = Inr (Some 777)"
    by code_simp
  from tk r m t p
  have "get_record_id_by_field ?w ''App'' ''Status'' ''Open'' (?a, []) =
          (classify (fst (rest_search_record_ids ?w ?a 100 (JInt 20) (JInt 999) 2
                            (probe_call ?a 100 # []))),
           (?a, search_call ?a 100 (JInt 20) (JInt 999) 2 # probe_call ?a 100 # []))"
    by blast
  with t t' c show ?thesis by simp
qed

text \<open>
  The specification has a values-list field without a matching id end in absent. Here the helper
  returns no id and the token is the no-match text, but the probe answers 404, the Content
  API is queried with the raw value ``Open'', and the lookup returns the record 222.
\<close>

theorem fallback_ignores_token_counterexample:
  "is_values_list (fake_archer status_fields) (JInt 20) = Inr True
   \<and> get_value_id_by_field_name_and_value
        (mock_world no_values [Response 404 None, directory_response ''App'' ''Endpoint'',
                               query_response ''Endpoint_Id'' 222])
        (fake_archer status_fields) ''Status'' ''Open'' = Inr []
   \<and> get_value_or_value_id
        (mock_world no_values [Response 404 None, directory_response ''App'' ''Endpoint'',
                               query_response ''Endpoint_Id'' 222])
        (fake_archer status_fields) ''Status'' (JInt 20) ''Open'' = Inr (JStr no_match_token)
   \<and> get_record_id_by_field
        (mock_world no_values [Response 404 None, directory_response ''App'' ''Endpoint'',
                               query_response ''Endpoint_Id'' 222])
        ''App'' ''Status'' ''Open'' (fake_archer status_fields, [])
     = (Inr (Some 222),
        (fake_archer status_fields,
         [query_call (fake_archer status_fields) ''Endpoint'' ''Status'' ''Open'',
          directory_call (fake_archer status_fields),
          probe_call (fake_archer status_fields) 100]))"
  by code_simp

end
